(* ===== verification/Prelude.thy ===== *)
theory Prelude
  imports Main "HOL-Library.Multiset" "HOL-Library.Code_Target_Numeral"
begin

text \<open>
  Shared vocabulary of the development: the JavaScript values that flow through the
  Angular front end (every field the components declare as \<open>any\<close> or read from a
  JSON response), the errors a callback can throw, JavaScript truthiness and
  \<open>typeof\<close>, the whitespace class of \<open>\s\<close> and \<open>trim()\<close>, \<open>Array.join\<close>,
  and decimal printing of numbers.  Generic lemmas on these are declared into the
  collection \<open>js_simps\<close> so that component proofs can use them by name.
\<close>

named_theorems js_simps "evaluation rules of the JavaScript value model"

section \<open>JavaScript values\<close>

text \<open>
  A JSON-shaped JavaScript value.  Numbers are integers: every number the program
  computes is an index, a length or a count, and the backend's floating-point
  payloads are only passed through.  Objects keep their properties as an association
  list in insertion order; values produced by \<open>JSON.parse\<close> have distinct keys.
\<close>

datatype jsval =
    JUndefined
  | JNull
  | JBool bool
  | JNum int
  | JStr string
  | JArr "jsval list"
  | JObj "(string \<times> jsval) list"

text \<open>Exceptions a callback of the front end can raise.\<close>

datatype js_error =
    TypeError        \<comment> \<open>property read of null/undefined, or a missing method\<close>
  | NotAllowedError  \<comment> \<open>rejection of \<open>getUserMedia\<close> (permission denied)\<close>

text \<open>\<open>Boolean(v)\<close>: the falsy values are undefined, null, false, 0 and the empty string.\<close>

fun truthy :: "jsval \<Rightarrow> bool" where
  "truthy JUndefined = False"
| "truthy JNull = False"
| "truthy (JBool b) = b"
| "truthy (JNum n) = (n \<noteq> 0)"
| "truthy (JStr s) = (s \<noteq> [])"
| "truthy (JArr xs) = True"
| "truthy (JObj kvs) = True"

text \<open>\<open>a || b\<close> on values: the first operand when it is truthy, else the second.\<close>

definition js_or :: "jsval \<Rightarrow> jsval \<Rightarrow> jsval" where
  "js_or a b = (if truthy a then a else b)"

fun js_typeof :: "jsval \<Rightarrow> string" where
  "js_typeof JUndefined = ''undefined''"
| "js_typeof JNull = ''object''"
| "js_typeof (JBool b) = ''boolean''"
| "js_typeof (JNum n) = ''number''"
| "js_typeof (JStr s) = ''string''"
| "js_typeof (JArr xs) = ''object''"
| "js_typeof (JObj kvs) = ''object''"

section \<open>Strings\<close>

text \<open>
  The characters matched by \<open>\s\<close> and removed by \<open>trim()\<close> (WhiteSpace and
  LineTerminator of ECMA-262) that are single bytes: TAB, LF, VT, FF, CR, SPACE and
  NO-BREAK SPACE.  (NEL, 0x85, is not JavaScript whitespace.)
\<close>

definition is_js_space :: "char \<Rightarrow> bool" where
  "is_js_space c \<longleftrightarrow> of_char c \<in> ({9, 10, 11, 12, 13, 32, 160} :: nat set)"

text \<open>\<open>String.prototype.trim\<close>.\<close>

definition js_trim :: "string \<Rightarrow> string" where
  "js_trim s = rev (dropWhile is_js_space (rev (dropWhile is_js_space s)))"

text \<open>\<open>String.prototype.startsWith\<close>.\<close>

definition starts_with :: "string \<Rightarrow> string \<Rightarrow> bool" where
  "starts_with s p \<longleftrightarrow> take (length p) s = p"

text \<open>\<open>Array.prototype.join(sep)\<close> on an array of strings.\<close>

fun js_join :: "string \<Rightarrow> string list \<Rightarrow> string" where
  "js_join sep [] = []"
| "js_join sep [x] = x"
| "js_join sep (x # y # zs) = x @ sep @ js_join sep (y # zs)"

section \<open>Decimal printing\<close>

definition digit_char :: "nat \<Rightarrow> char" where
  "digit_char d = ''0123456789'' ! d"

definition is_digit_char :: "char \<Rightarrow> bool" where
  "is_digit_char c \<longleftrightarrow> 48 \<le> (of_char c :: nat) \<and> (of_char c :: nat) \<le> 57"

definition digit_val :: "char \<Rightarrow> nat" where
  "digit_val c = of_char c - 48"

text \<open>The value of a string of decimal digits, most significant first.\<close>

definition parse_nat :: "string \<Rightarrow> nat" where
  "parse_nat s = foldl (\<lambda>acc c. 10 * acc + digit_val c) 0 s"

fun nat_str :: "nat \<Rightarrow> string" where
  "nat_str n = (if n < 10 then [digit_char n] else nat_str (n div 10) @ [digit_char (n mod 10)])"

declare nat_str.simps [simp del]

text \<open>\<open>Number.prototype.toString()\<close> on an integer.\<close>

definition int_str :: "int \<Rightarrow> string" where
  "int_str i = (if i < 0 then CHR ''-'' # nat_str (nat (- i)) else nat_str (nat i))"

section \<open>Generic lemmas\<close>

lemma js_or_truthy [js_simps]:
  "truthy a \<Longrightarrow> js_or a b = a" "\<not> truthy a \<Longrightarrow> js_or a b = b"
  by (simp_all add: js_or_def)

lemma truthy_js_or [js_simps]: "truthy (js_or a b) \<longleftrightarrow> truthy a \<or> truthy b"
  by (simp add: js_or_def)

lemma dropWhile_no_space [js_simps]:
  "s \<noteq> [] \<Longrightarrow> \<not> is_js_space (hd s) \<Longrightarrow> dropWhile is_js_space s = s"
  by (cases s) simp_all

lemma js_trim_id [js_simps]:
  assumes "s \<noteq> []" "\<not> is_js_space (hd s)" "\<not> is_js_space (last s)"
  shows "js_trim s = s"
proof -
  have "rev s \<noteq> []" "\<not> is_js_space (hd (rev s))"
    using assms by (simp_all add: hd_rev)
  then show ?thesis
    using assms by (simp add: js_trim_def dropWhile_no_space)
qed

lemma js_join_Nil_iff [js_simps]: "js_join sep xs = [] \<longleftrightarrow> (\<forall>x \<in> set xs. x = []) \<and> (sep = [] \<or> length xs \<le> 1)"
  by (induction sep xs rule: js_join.induct) auto

lemma digit_char_cases: "(d::nat) < 10 \<Longrightarrow> d \<in> {0, 1, 2, 3, 4, 5, 6, 7, 8, 9}"
  by auto

lemma digit_char_digit [js_simps]: "d < 10 \<Longrightarrow> is_digit_char (digit_char d)"
  by (drule digit_char_cases) (auto simp: digit_char_def is_digit_char_def)

lemma digit_val_digit_char [js_simps]: "d < 10 \<Longrightarrow> digit_val (digit_char d) = d"
  by (drule digit_char_cases) (auto simp: digit_char_def digit_val_def)

lemma nat_str_nonempty [js_simps]: "nat_str n \<noteq> []"
  by (subst nat_str.simps) simp

lemma nat_str_step: "10 \<le> n \<Longrightarrow> nat_str n = nat_str (n div 10) @ [digit_char (n mod 10)]"
  by (subst nat_str.simps) simp

lemma nat_str_digits [js_simps]: "\<forall>c \<in> set (nat_str n). is_digit_char c"
proof (induction n rule: nat_str.induct)
  case (1 n)
  then show ?case
    by (cases "n < 10") (simp_all add: nat_str.simps [of n] digit_char_digit)
qed

lemma parse_nat_snoc: "parse_nat (s @ [c]) = 10 * parse_nat s + digit_val c"
  by (simp add: parse_nat_def)

text \<open>Printing a number and reading it back gives the number.\<close>

lemma parse_nat_nat_str [js_simps]: "parse_nat (nat_str n) = n"
proof (induction n rule: nat_str.induct)
  case (1 n)
  show ?case
  proof (cases "n < 10")
    case True
    then show ?thesis
      by (simp add: nat_str.simps [of n] parse_nat_def digit_val_digit_char)
  next
    case False
    then have "parse_nat (nat_str n) = 10 * (n div 10) + n mod 10"
      using "1.IH" by (simp add: nat_str_step parse_nat_snoc digit_val_digit_char)
    then show ?thesis by simp
  qed
qed

lemma nat_str_zero: "nat_str 0 = ''0''"
  by (simp add: nat_str.simps [of 0] digit_char_def)

lemma nat_str_hd: "n \<noteq> 0 \<Longrightarrow> hd (nat_str n) \<noteq> CHR ''0''"
proof (induction n rule: nat_str.induct)
  case (1 n)
  show ?case
  proof (cases "n < 10")
    case True
    have "digit_val (digit_char n) = n" using True by (rule digit_val_digit_char)
    moreover have "digit_val (CHR ''0'') = 0" by (simp add: digit_val_def)
    ultimately have "digit_char n \<noteq> CHR ''0''" using "1.prems" by auto
    with True show ?thesis by (simp add: nat_str.simps [of n])
  next
    case False
    then have "hd (nat_str (n div 10)) \<noteq> CHR ''0''" using "1.IH" by simp
    with False show ?thesis by (simp add: nat_str_step nat_str_nonempty)
  qed
qed

lemma int_str_nonneg: "0 \<le> i \<Longrightarrow> int_str i = nat_str (nat i)"
  by (simp add: int_str_def)

text \<open>A list is distinct when no element occurs twice in its multiset.\<close>

lemma distinct_count_le1: "distinct xs \<longleftrightarrow> (\<forall>a. count (mset xs) a \<le> 1)"
proof (induction xs)
  case Nil
  then show ?case by simp
next
  case (Cons x xs)
  have "x \<in> set xs \<longleftrightarrow> 1 \<le> count (mset xs) x"
    by (simp add: Suc_le_eq)
  then show ?case
    using Cons.IH by (auto simp: le_Suc_eq)
qed

lemma distinct_sub_mset: "distinct ys \<Longrightarrow> mset xs \<subseteq># mset ys \<Longrightarrow> distinct xs"
  unfolding distinct_count_le1 by (meson mset_subset_eq_count order_trans)

end
