(* ===== verification/JsText.thy ===== *)
theory JsText
  imports Prelude
begin

text \<open>
  The JavaScript built-ins the front end applies to the values it receives:
  \<open>s.split(/\s+/)\<close> and the word count \<open>split(/\s+/).filter(Boolean).length\<close>
  of \<open>clientSideFeedbackFallback\<close>, property access \<open>v.k\<close> and \<open>k in v\<close>,
  the property order of \<open>Object.keys\<close>, \<open>String(v)\<close> (template literals and
  \<open>FormData.append\<close>), \<open>ToNumber\<close> in comparisons, and \<open>JSON.stringify\<close>
  (the \<open>facial\<close> form field of \<open>requestFeedback\<close>).  Each is compared with a
  simpler reference where one exists.
\<close>

section \<open>Splitting at whitespace runs\<close>

text \<open>
  \<open>s.split(/\s+/)\<close>: the pieces between maximal runs of whitespace, including an
  empty first piece when \<open>s\<close> starts with whitespace and an empty last one when it
  ends with whitespace; \<open>"".split(/\s+/)\<close> is \<open>[""]\<close>.  The scan keeps the
  current piece reversed in \<open>cur\<close>; after a separator it skips the rest of the run,
  which is why the recursion is not structural.
\<close>

function split_ws :: "string \<Rightarrow> string \<Rightarrow> string list" where
  "split_ws cur [] = [rev cur]"
| "split_ws cur (c # cs) =
     (if is_js_space c then rev cur # split_ws [] (dropWhile is_js_space cs)
      else split_ws (c # cur) cs)"
  by pat_completeness auto
termination
  by (relation "measure (\<lambda>(cur, cs). length cs)")
     (auto simp: le_imp_less_Suc length_dropWhile_le)

definition js_split_ws :: "string \<Rightarrow> string list" where
  "js_split_ws s = split_ws [] s"

text \<open>\<open>.filter(Boolean).length\<close>: the number of non-empty pieces.\<close>

definition js_word_count :: "string \<Rightarrow> nat" where
  "js_word_count s = length (filter (\<lambda>w. w \<noteq> []) (js_split_ws s))"

text \<open>
  Reference: a one-pass counter of word starts, a non-whitespace character at the
  beginning or right after whitespace.  \<open>prev\<close> says whether the previous
  character was whitespace (or there was none).
\<close>

fun word_starts :: "bool \<Rightarrow> string \<Rightarrow> nat" where
  "word_starts prev [] = 0"
| "word_starts prev (c # cs) =
     (if \<not> is_js_space c \<and> prev then Suc (word_starts False cs)
      else word_starts (is_js_space c) cs)"

definition word_count :: "string \<Rightarrow> nat" where
  "word_count s = word_starts True s"

section \<open>Property access\<close>

text \<open>
  A property key is an array index when it is the canonical decimal form of a number
  below \<open>2^32 - 1\<close>.  Such keys come first in \<open>Object.keys\<close> and
  \<open>JSON.stringify\<close>, in increasing numeric order; the other keys follow in insertion
  order (ECMA-262, OrdinaryOwnPropertyKeys).
\<close>

definition is_index_key :: "string \<Rightarrow> bool" where
  "is_index_key k \<longleftrightarrow>
     k \<noteq> [] \<and> (\<forall>c \<in> set k. is_digit_char c) \<and> (k = ''0'' \<or> hd k \<noteq> CHR ''0'')
     \<and> parse_nat k < 4294967295"

definition own_props :: "(string \<times> 'a) list \<Rightarrow> (string \<times> 'a) list" where
  "own_props kvs =
     sort_key (\<lambda>kv. parse_nat (fst kv)) (filter (\<lambda>kv. is_index_key (fst kv)) kvs)
     @ filter (\<lambda>kv. \<not> is_index_key (fst kv)) kvs"

text \<open>\<open>Object.keys(v)\<close>; it throws on null and undefined.\<close>

fun js_keys :: "jsval \<Rightarrow> js_error + string list" where
  "js_keys JUndefined = Inl TypeError"
| "js_keys JNull = Inl TypeError"
| "js_keys (JObj kvs) = Inr (map fst (own_props kvs))"
| "js_keys (JArr xs) = Inr (map nat_str [0..<length xs])"
| "js_keys (JStr s) = Inr (map nat_str [0..<length s])"
| "js_keys (JNum n) = Inr []"
| "js_keys (JBool b) = Inr []"

text \<open>
  \<open>v[k]\<close> and \<open>v.k\<close>: a read from null or undefined throws; a missing property is
  undefined; arrays and strings have \<open>length\<close> and their index properties.  Methods
  inherited from prototypes are not values of the model.
\<close>

fun js_get :: "jsval \<Rightarrow> string \<Rightarrow> js_error + jsval" where
  "js_get JUndefined k = Inl TypeError"
| "js_get JNull k = Inl TypeError"
| "js_get (JObj kvs) k = Inr (case map_of kvs k of Some v \<Rightarrow> v | None \<Rightarrow> JUndefined)"
| "js_get (JArr xs) k =
     Inr (if k = ''length'' then JNum (int (length xs))
          else if is_index_key k \<and> parse_nat k < length xs then xs ! parse_nat k
          else JUndefined)"
| "js_get (JStr s) k =
     Inr (if k = ''length'' then JNum (int (length s))
          else if is_index_key k \<and> parse_nat k < length s then JStr [s ! parse_nat k]
          else JUndefined)"
| "js_get (JNum n) k = Inr JUndefined"
| "js_get (JBool b) k = Inr JUndefined"

text \<open>
  The value of \<open>v.k\<close> where the code reads a property of a value that cannot be
  null or undefined there (\<open>js_get_prop\<close> below): the read cannot throw.
\<close>

definition js_prop :: "jsval \<Rightarrow> string \<Rightarrow> jsval" where
  "js_prop v k = (case js_get v k of Inr x \<Rightarrow> x | Inl _ \<Rightarrow> JUndefined)"

text \<open>\<open>k in v\<close>: defined on objects only; on a primitive it throws.\<close>

fun js_has :: "jsval \<Rightarrow> string \<Rightarrow> js_error + bool" where
  "js_has (JObj kvs) k = Inr (k \<in> fst ` set kvs)"
| "js_has (JArr xs) k = Inr (k = ''length'' \<or> (is_index_key k \<and> parse_nat k < length xs))"
| "js_has v k = Inl TypeError"

section \<open>Conversions\<close>

text \<open>
  \<open>String(v)\<close>, also the conversion of template literals and of
  \<open>FormData.append\<close> for non-Blob values.  An array joins its elements with commas,
  null and undefined elements giving the empty string.
\<close>

fun js_to_string :: "jsval \<Rightarrow> string" where
  "js_to_string JUndefined = ''undefined''"
| "js_to_string JNull = ''null''"
| "js_to_string (JBool b) = (if b then ''true'' else ''false'')"
| "js_to_string (JNum n) = int_str n"
| "js_to_string (JStr s) = s"
| "js_to_string (JArr xs) =
     js_join '','' (map (\<lambda>x. if x = JNull \<or> x = JUndefined then [] else js_to_string x) xs)"
| "js_to_string (JObj kvs) = ''[object Object]''"

text \<open>
  \<open>ToNumber\<close> restricted to the integers of the model: \<open>None\<close> is NaN.  A string
  converts when, after trimming, it is empty (0) or an optionally signed decimal
  integer; other numerals (fractions, hexadecimal, exponents) are outside the integer
  model and read as NaN.
\<close>

definition str_to_int :: "string \<Rightarrow> int option" where
  "str_to_int s0 =
     (let s = js_trim s0;
          digits = (\<lambda>t. t \<noteq> [] \<and> (\<forall>c \<in> set t. is_digit_char c))
      in if s = [] then Some 0
         else if hd s = CHR ''-'' then (if digits (tl s) then Some (- int (parse_nat (tl s))) else None)
         else if hd s = CHR ''+'' then (if digits (tl s) then Some (int (parse_nat (tl s))) else None)
         else if digits s then Some (int (parse_nat s)) else None)"

fun js_to_int :: "jsval \<Rightarrow> int option" where
  "js_to_int JUndefined = None"
| "js_to_int JNull = Some 0"
| "js_to_int (JBool b) = Some (if b then 1 else 0)"
| "js_to_int (JNum n) = Some n"
| "js_to_int (JStr s) = str_to_int s"
| "js_to_int (JArr xs) = str_to_int (js_to_string (JArr xs))"
| "js_to_int (JObj kvs) = None"

text \<open>\<open>n < v\<close> and \<open>n >= v\<close> for a number \<open>n\<close>: false when \<open>v\<close> is NaN.\<close>

definition js_less :: "int \<Rightarrow> jsval \<Rightarrow> bool" where
  "js_less n v = (case js_to_int v of Some m \<Rightarrow> n < m | None \<Rightarrow> False)"

definition js_geq :: "int \<Rightarrow> jsval \<Rightarrow> bool" where
  "js_geq n v = (case js_to_int v of Some m \<Rightarrow> m \<le> n | None \<Rightarrow> False)"

section \<open>JSON.stringify\<close>

definition hex_char :: "nat \<Rightarrow> char" where
  "hex_char d = ''0123456789abcdef'' ! d"

text \<open>
  Escaping of one character inside a JSON string literal (ECMA-262 QuoteJSONString):
  quote and backslash are escaped, the five control characters with a short form use
  it, the other control characters become \<open>\u00xx\<close> in lower-case hex, everything
  else is copied.  \<open>CHR 0x22\<close> is the double quote, \<open>CHR 0x5C\<close> the backslash.
\<close>

definition json_esc :: "char \<Rightarrow> string" where
  "json_esc c =
     (if c = CHR 0x22 then [CHR 0x5C, CHR 0x22]
      else if c = CHR 0x5C then [CHR 0x5C, CHR 0x5C]
      else if c = CHR 0x08 then [CHR 0x5C, CHR ''b'']
      else if c = CHR 0x0C then [CHR 0x5C, CHR ''f'']
      else if c = CHR 0x0A then [CHR 0x5C, CHR ''n'']
      else if c = CHR 0x0D then [CHR 0x5C, CHR ''r'']
      else if c = CHR 0x09 then [CHR 0x5C, CHR ''t'']
      else if of_char c < (32 :: nat) then
        [CHR 0x5C, CHR ''u'', CHR ''0'', CHR ''0'',
         hex_char (of_char c div 16), hex_char (of_char c mod 16)]
      else [c])"

definition json_quote :: "string \<Rightarrow> string" where
  "json_quote s = CHR 0x22 # concat (map json_esc s) @ [CHR 0x22]"

text \<open>
  \<open>JSON.stringify(v)\<close>; \<open>None\<close> is its result \<open>undefined\<close> for an undefined
  argument.  Undefined array elements print as \<open>null\<close>, properties with an undefined
  value are left out, and properties appear in the order of \<open>own_props\<close>.
\<close>

fun json_stringify :: "jsval \<Rightarrow> string option" where
  "json_stringify JUndefined = None"
| "json_stringify JNull = Some ''null''"
| "json_stringify (JBool b) = Some (if b then ''true'' else ''false'')"
| "json_stringify (JNum n) = Some (int_str n)"
| "json_stringify (JStr s) = Some (json_quote s)"
| "json_stringify (JArr xs) =
     Some (''['' @ js_join '','' (map (\<lambda>x. case json_stringify x of None \<Rightarrow> ''null'' | Some t \<Rightarrow> t) xs)
           @ '']'')"
| "json_stringify (JObj kvs) =
     Some (''{'' @ js_join '',''
             (concat (map (\<lambda>(k, r). case r of None \<Rightarrow> [] | Some t \<Rightarrow> [json_quote k @ '':'' @ t])
                (own_props (map (\<lambda>(k, v). (k, json_stringify v)) kvs))))
           @ ''}'')"

subsection \<open>Decoding a string literal\<close>

text \<open>
  The reading direction of \<open>json_esc\<close>, as \<open>JSON.parse\<close> on the receiving side
  performs it for the body of a string literal: it is used to show that the
  encoding loses nothing.
\<close>

definition hex_val :: "char \<Rightarrow> nat option" where
  "hex_val c =
     (let n = (of_char c :: nat)
      in if 48 \<le> n \<and> n \<le> 57 then Some (n - 48)
         else if 97 \<le> n \<and> n \<le> 102 then Some (n - 87)
         else if 65 \<le> n \<and> n \<le> 70 then Some (n - 55)
         else None)"

definition unesc_short :: "char \<Rightarrow> char option" where
  "unesc_short e =
     (if e = CHR 0x22 then Some (CHR 0x22)
      else if e = CHR 0x5C then Some (CHR 0x5C)
      else if e = CHR ''/'' then Some (CHR ''/'')
      else if e = CHR ''b'' then Some (CHR 0x08)
      else if e = CHR ''f'' then Some (CHR 0x0C)
      else if e = CHR ''n'' then Some (CHR 0x0A)
      else if e = CHR ''r'' then Some (CHR 0x0D)
      else if e = CHR ''t'' then Some (CHR 0x09)
      else None)"

definition hex4 :: "char \<Rightarrow> char \<Rightarrow> char \<Rightarrow> char \<Rightarrow> nat option" where
  "hex4 a b c d =
     (case (hex_val a, hex_val b, hex_val c, hex_val d) of
        (Some w, Some x, Some y, Some z) \<Rightarrow> Some (((w * 16 + x) * 16 + y) * 16 + z)
      | _ \<Rightarrow> None)"

fun json_unesc :: "string \<Rightarrow> string option" where
  "json_unesc [] = Some []"
| "json_unesc (c # cs) =
     (if c = CHR 0x5C then
        (case cs of
           [] \<Rightarrow> None
         | e # rest \<Rightarrow>
             if e = CHR ''u'' then
               (case rest of
                  a # b # c' # d # rest' \<Rightarrow>
                    (case hex4 a b c' d of
                       Some n \<Rightarrow> if n < 256 then map_option (Cons (char_of n)) (json_unesc rest') else None
                     | None \<Rightarrow> None)
                | _ \<Rightarrow> None)
             else (case unesc_short e of
                     Some x \<Rightarrow> map_option (Cons x) (json_unesc rest)
                   | None \<Rightarrow> None))
      else if c = CHR 0x22 \<or> of_char c < (32 :: nat) then None
      else map_option (Cons c) (json_unesc cs))"

section \<open>Lemmas\<close>

lemma word_starts_dropWhile: "word_starts True (dropWhile is_js_space cs) = word_starts True cs"
  by (induction cs) auto

lemma split_ws_count:
  "length (filter (\<lambda>w. w \<noteq> []) (split_ws cur s)) =
     word_starts (cur = []) s + (if cur = [] then 0 else 1)"
proof (induction cur s rule: split_ws.induct)
  case (1 cur)
  then show ?case by simp
next
  case (2 cur c cs)
  then show ?case
    by (cases "is_js_space c") (simp_all add: word_starts_dropWhile)
qed

lemma split_ws_concat:
  "concat (split_ws cur s) = rev cur @ filter (\<lambda>c. \<not> is_js_space c) s"
proof (induction cur s rule: split_ws.induct)
  case (1 cur)
  then show ?case by simp
next
  case (2 cur c cs)
  have "filter (\<lambda>c. \<not> is_js_space c) (dropWhile is_js_space cs) =
        filter (\<lambda>c. \<not> is_js_space c) cs"
    by (induction cs) auto
  with 2 show ?case by (cases "is_js_space c") simp_all
qed

lemma split_ws_no_space:
  "\<forall>c \<in> set cur. \<not> is_js_space c \<Longrightarrow> w \<in> set (split_ws cur s) \<Longrightarrow> \<forall>c \<in> set w. \<not> is_js_space c"
proof (induction cur s rule: split_ws.induct)
  case (1 cur)
  then show ?case by simp
next
  case (2 cur c cs)
  show ?case
  proof (cases "is_js_space c")
    case True
    then have "w = rev cur \<or> w \<in> set (split_ws [] (dropWhile is_js_space cs))"
      using "2.prems"(2) by simp
    then show ?thesis
    proof
      assume "w = rev cur"
      then show ?thesis using "2.prems"(1) by simp
    next
      assume w: "w \<in> set (split_ws [] (dropWhile is_js_space cs))"
      have "\<forall>x \<in> set ([] :: string). \<not> is_js_space x" by simp
      from "2.IH"(1) [OF True this w] show ?thesis .
    qed
  next
    case False
    then have w: "w \<in> set (split_ws (c # cur) cs)"
      using "2.prems"(2) by simp
    have "\<forall>x \<in> set (c # cur). \<not> is_js_space x"
      using "2.prems"(1) False by simp
    from "2.IH"(2) [OF False this w] show ?thesis .
  qed
qed

lemma split_ws_nonempty: "split_ws cur s \<noteq> []"
  by (induction cur s rule: split_ws.induct) simp_all

lemma mset_own_props [js_simps]: "mset (own_props kvs) = mset kvs"
  by (simp add: own_props_def)

lemma set_own_props [js_simps]: "set (own_props kvs) = set kvs"
  by (metis mset_own_props set_mset_mset)

lemma own_props_index_prefix:
  "own_props kvs = sort_key (\<lambda>kv. parse_nat (fst kv)) (filter (\<lambda>kv. is_index_key (fst kv)) kvs)
                   @ filter (\<lambda>kv. \<not> is_index_key (fst kv)) kvs"
  by (simp add: own_props_def)

lemma insort_key_map:
  "(\<And>y. f' (g y) = f y) \<Longrightarrow> insort_key f' (g x) (map g xs) = map g (insort_key f x xs)"
  by (induction xs) auto

lemma sort_key_map:
  "(\<And>y. f' (g y) = f y) \<Longrightarrow> sort_key f' (map g xs) = map g (sort_key f xs)"
  by (induction xs) (simp_all add: insort_key_map)

lemma own_props_map_values [js_simps]:
  "own_props (map (\<lambda>(k, v). (k, f v)) kvs) = map (\<lambda>(k, v). (k, f v)) (own_props kvs)"
proof -
  have "sort_key (\<lambda>kv. parse_nat (fst kv)) (map (\<lambda>(k, v). (k, f v)) xs) =
        map (\<lambda>(k, v). (k, f v)) (sort_key (\<lambda>kv. parse_nat (fst kv)) xs)" for xs
    by (rule sort_key_map [of "\<lambda>kv. parse_nat (fst kv)" "\<lambda>(k, v). (k, f v)"
                                  "\<lambda>kv. parse_nat (fst kv)"])
       (simp split: prod.splits)
  then show ?thesis
    by (simp add: own_props_def filter_map comp_def case_prod_beta)
qed

lemma js_get_prop [js_simps]: "v \<noteq> JNull \<Longrightarrow> v \<noteq> JUndefined \<Longrightarrow> js_get v k = Inr (js_prop v k)"
  by (cases v) (simp_all add: js_prop_def)

lemma truthy_js_get [js_simps]: "truthy v \<Longrightarrow> js_get v k = Inr (js_prop v k)"
  by (cases v) (simp_all add: js_prop_def)

lemma is_index_key_nat_str:
  assumes "n < 4294967295"
  shows "is_index_key (nat_str n)"
proof (cases "n = 0")
  case True
  then show ?thesis
    by (simp add: nat_str_zero is_index_key_def is_digit_char_def parse_nat_def digit_val_def)
next
  case False
  then show ?thesis
    using assms nat_str_hd [of n]
    by (simp add: is_index_key_def nat_str_nonempty nat_str_digits parse_nat_nat_str)
qed

text \<open>\<open>arr.length\<close> and \<open>arr[n]\<close> for an index of a JavaScript array (shorter than 2^32 - 1).\<close>

lemma js_prop_JArr_length [js_simps]: "js_prop (JArr xs) ''length'' = JNum (int (length xs))"
  by (simp add: js_prop_def)

lemma js_prop_JArr_nth [js_simps]:
  "n < length xs \<Longrightarrow> length xs \<le> 4294967295 \<Longrightarrow> js_prop (JArr xs) (nat_str n) = xs ! n"
  using is_index_key_nat_str [of n] nat_str_nonempty [of n] nat_str_digits [of n]
  by (auto simp: js_prop_def parse_nat_nat_str is_digit_char_def)

lemma js_prop_JArr_beyond [js_simps]:
  "length xs \<le> n \<Longrightarrow> js_prop (JArr xs) (nat_str n) = JUndefined"
  using nat_str_digits [of n] by (auto simp: js_prop_def parse_nat_nat_str is_digit_char_def)

lemma json_stringify_None [js_simps]: "json_stringify v = None \<longleftrightarrow> v = JUndefined"
  by (cases v) simp_all

lemma truthy_json_stringify [js_simps]: "truthy v \<Longrightarrow> json_stringify v \<noteq> None"
  by (cases v) simp_all

lemma hex_val_hex_char: "d < 16 \<Longrightarrow> hex_val (hex_char d) = Some d"
proof -
  have "\<forall>d \<in> set [0..<16]. hex_val (hex_char d) = Some d"
    by code_simp
  then show "d < 16 \<Longrightarrow> hex_val (hex_char d) = Some d" by simp
qed

text \<open>Decoding undoes the escaping of one character, whatever follows it.\<close>

lemma json_unesc_esc: "json_unesc (json_esc c @ rest) = map_option (Cons c) (json_unesc rest)"
proof (cases "c \<in> {CHR 0x22, CHR 0x5C, CHR 0x08, CHR 0x0C, CHR 0x0A, CHR 0x0D, CHR 0x09}")
  case True
  then show ?thesis by (auto simp: json_esc_def unesc_short_def)
next
  case short: False
  show ?thesis
  proof (cases "of_char c < (32::nat)")
    case True
    let ?n = "of_char c :: nat"
    have "hex_val (hex_char (?n div 16)) = Some (?n div 16)"
      using True by (simp add: hex_val_hex_char)
    moreover have "hex_val (hex_char (?n mod 16)) = Some (?n mod 16)"
      by (simp add: hex_val_hex_char)
    ultimately have "hex4 (CHR ''0'') (CHR ''0'') (hex_char (?n div 16)) (hex_char (?n mod 16)) = Some ?n"
      by (simp add: hex4_def hex_val_def)
    with short True show ?thesis by (simp add: json_esc_def)
  next
    case False
    with short show ?thesis by (simp add: json_esc_def)
  qed
qed

lemma json_unesc_concat [js_simps]: "json_unesc (concat (map json_esc s)) = Some s"
  by (induction s) (simp_all add: json_unesc_esc)

lemma json_quote_body: "json_quote s = CHR 0x22 # t @ [CHR 0x22] \<Longrightarrow> json_unesc t = Some s"
  unfolding json_quote_def by (auto simp: json_unesc_concat)

text \<open>
  Claim C6.  \<open>s.split(/\s+/).filter(Boolean).length\<close> is the number of word starts of
  \<open>s\<close>: the split-and-filter pipeline agrees with a one-pass counter.
\<close>

lemma js_word_count_reference: "js_word_count s = word_count s"
  using split_ws_count [of "[]" s] by (simp add: js_word_count_def js_split_ws_def word_count_def)

end
