(* ===== verification/Runtime.thy ===== *)
theory Runtime
  imports JsText
begin

text \<open>
  The interface between the Angular components and the browser: HTTP requests as data
  (\<open>HttpClient.post\<close> with a \<open>FormData\<close> or JSON body), and the event loop as an
  explicit runtime state.  A component's state sits in \<open>st\<close>; every callback it has
  registered and not yet run (an HTTP subscription, an \<open>onended\<close> handler, a pending
  promise, a queued \<open>MediaRecorder\<close> task) is an element of \<open>tasks\<close>; every
  request it has issued is appended to \<open>sent\<close>; an exception that escapes a callback
  is appended to \<open>thrown\<close> (the console) and leaves the state as it was.  The
  environment chooses which pending task completes next, so the components'
  step functions take the index of the task that completes.
\<close>

section \<open>Requests\<close>

text \<open>A recorded chunk: the \<open>MediaRecorder\<close> that produced it and its size.\<close>

type_synonym chunk = "nat \<times> nat"

datatype blob =
    FileBlob string            \<comment> \<open>a \<open>File\<close> the user selected, by name\<close>
  | ChunkBlob "chunk list"     \<comment> \<open>\<open>new Blob(chunks)\<close>\<close>

text \<open>
  A \<open>FormData\<close> entry: \<open>append(name, value)\<close> converts a non-Blob value with
  \<open>String(value)\<close>; \<open>append(name, blob, filename)\<close> keeps the blob.
\<close>

datatype form_value = FText string | FFile blob string

datatype body = Form "(string \<times> form_value) list" | JsonBody jsval

datatype resp_kind = AsJson | AsBlob

record request =
  req_url :: string
  req_body :: body
  req_resp :: resp_kind

definition form_text :: "string \<Rightarrow> jsval \<Rightarrow> string \<times> form_value" where
  "form_text name v = (name, FText (js_to_string v))"

section \<open>The event loop\<close>

record ('s, 't) runtime =
  st :: 's
  tasks :: "'t list"
  sent :: "request list"
  thrown :: "js_error list"

definition rt_init :: "'s \<Rightarrow> ('s, 't) runtime" where
  "rt_init s = \<lparr>st = s, tasks = [], sent = [], thrown = []\<rparr>"

text \<open>\<open>http.post(...).subscribe(...)\<close>: the request is sent and its callback pending.\<close>

definition post :: "request \<Rightarrow> 't \<Rightarrow> ('s, 't) runtime \<Rightarrow> ('s, 't) runtime" where
  "post rq t r = r\<lparr>tasks := tasks r @ [t], sent := sent r @ [rq]\<rparr>"

text \<open>A callback registered with the browser without a request (a promise, an event).\<close>

definition schedule :: "'t \<Rightarrow> ('s, 't) runtime \<Rightarrow> ('s, 't) runtime" where
  "schedule t r = r\<lparr>tasks := tasks r @ [t]\<rparr>"

definition update_st :: "('s \<Rightarrow> 's) \<Rightarrow> ('s, 't) runtime \<Rightarrow> ('s, 't) runtime" where
  "update_st f r = r\<lparr>st := f (st r)\<rparr>"

text \<open>The environment completes pending task \<open>i\<close>: it leaves the queue.\<close>

definition take_task :: "nat \<Rightarrow> ('s, 't) runtime \<Rightarrow> ('t \<times> ('s, 't) runtime) option" where
  "take_task i r =
     (if i < length (tasks r)
      then Some (tasks r ! i, r\<lparr>tasks := take i (tasks r) @ drop (Suc i) (tasks r)\<rparr>)
      else None)"

text \<open>
  Pending task \<open>i\<close> completes in a way that \<open>ok\<close> accepts (a response for an HTTP
  subscription, an \<open>ended\<close> event for an audio element): it leaves the queue and its
  callback \<open>f\<close> runs; otherwise nothing happens.
\<close>

definition complete :: "nat \<Rightarrow> ('t \<Rightarrow> bool) \<Rightarrow> ('t \<Rightarrow> ('s, 't) runtime \<Rightarrow> ('s, 't) runtime) \<Rightarrow>
    ('s, 't) runtime \<Rightarrow> ('s, 't) runtime" where
  "complete i ok f w = (case take_task i w of Some (t, w') \<Rightarrow> if ok t then f t w' else w | None \<Rightarrow> w)"

definition throw :: "js_error \<Rightarrow> ('s, 't) runtime \<Rightarrow> ('s, 't) runtime" where
  "throw e r = r\<lparr>thrown := thrown r @ [e]\<rparr>"

text \<open>
  The outcome of running a callback on \<open>r\<close>: its final runtime, or the exception it
  raised, which is reported and leaves \<open>r\<close> as it was.
\<close>

definition settle :: "('s, 't) runtime \<Rightarrow> js_error + ('s, 't) runtime \<Rightarrow> ('s, 't) runtime" where
  "settle r res = (case res of Inl e \<Rightarrow> throw e r | Inr r' \<Rightarrow> r')"

section \<open>Lemmas\<close>

lemma runtime_simps [simp]:
  "st (post rq t r) = st r" "tasks (post rq t r) = tasks r @ [t]" "sent (post rq t r) = sent r @ [rq]"
  "thrown (post rq t r) = thrown r"
  "st (schedule t r) = st r" "tasks (schedule t r) = tasks r @ [t]" "sent (schedule t r) = sent r"
  "thrown (schedule t r) = thrown r"
  "st (update_st f r) = f (st r)" "tasks (update_st f r) = tasks r" "sent (update_st f r) = sent r"
  "thrown (update_st f r) = thrown r"
  "st (throw e r) = st r" "tasks (throw e r) = tasks r" "sent (throw e r) = sent r"
  "thrown (throw e r) = thrown r @ [e]"
  by (simp_all add: post_def schedule_def update_st_def throw_def)

lemma settle_simps [simp]: "settle r (Inl e) = throw e r" "settle r (Inr r') = r'"
  by (simp_all add: settle_def)

lemma take_task_Some:
  "take_task i r = Some (t, r') \<longleftrightarrow>
     i < length (tasks r) \<and> t = tasks r ! i \<and>
     r' = r\<lparr>tasks := take i (tasks r) @ drop (Suc i) (tasks r)\<rparr>"
  by (auto simp: take_task_def)

lemma take_task_None: "take_task i r = None \<longleftrightarrow> length (tasks r) \<le> i"
  by (simp add: take_task_def)

text \<open>A completed task leaves the queue; every other task stays, once each.\<close>

lemma take_task_mset:
  "take_task i r = Some (t, r') \<Longrightarrow> mset (tasks r) = add_mset t (mset (tasks r'))"
proof -
  assume "take_task i r = Some (t, r')"
  then have i: "i < length (tasks r)" and t: "t = tasks r ! i"
    and r': "tasks r' = take i (tasks r) @ drop (Suc i) (tasks r)"
    by (auto simp: take_task_Some)
  have "tasks r = take i (tasks r) @ tasks r ! i # drop (Suc i) (tasks r)"
    using i by (simp add: id_take_nth_drop)
  then have "mset (tasks r) = mset (take i (tasks r) @ tasks r ! i # drop (Suc i) (tasks r))"
    by (rule arg_cong)
  then show ?thesis using t r' by simp
qed

lemma take_task_set: "take_task i r = Some (t, r') \<Longrightarrow> set (tasks r') \<subseteq> set (tasks r)"
  using take_task_mset by (metis set_mset_add_mset_insert set_mset_mset subset_insertI)

lemma take_task_fields:
  "take_task i r = Some (t, r') \<Longrightarrow> st r' = st r \<and> sent r' = sent r \<and> thrown r' = thrown r"
  by (auto simp: take_task_Some)

text \<open>
  A property that the removal of a task turns into \<open>Q\<close> of the task, and that every
  callback restores from \<open>Q\<close>, holds after the completion of any pending task.
\<close>

lemma complete_preserves:
  assumes take: "\<And>t w'. take_task i w = Some (t, w') \<Longrightarrow> Q t w'"
    and cb: "\<And>t w'. ok t \<Longrightarrow> Q t w' \<Longrightarrow> P (f t w')"
    and pw: "P w"
  shows "P (complete i ok f w)"
proof (cases "take_task i w")
  case None
  then show ?thesis using pw by (simp add: complete_def)
next
  case (Some tw)
  then obtain t w' where tk: "take_task i w = Some (t, w')" by (cases tw) auto
  then show ?thesis using pw take [OF tk] cb by (simp add: complete_def)
qed

lemma complete_at:
  "tasks w = ts @ t # us \<Longrightarrow> ok t \<Longrightarrow> complete (length ts) ok f w = f t (w\<lparr>tasks := ts @ us\<rparr>)"
  by (simp add: complete_def take_task_def)

lemma complete_last:
  "tasks w = ts @ [t] \<Longrightarrow> ok t \<Longrightarrow> complete (length ts) ok f w = f t (w\<lparr>tasks := ts\<rparr>)"
  by (simp add: complete_def take_task_def)

end
