(* ===== verification/Feedback.thy ===== *)
theory Feedback
  imports JsText
begin

text \<open>
  The pure part of the feedback step of \<open>FrontComponent\<close>
  (src/frontend/cv-quiz-frontend/src/app/front/front.component.ts):
  \<open>clientSideFeedbackFallback\<close>, the text shown and spoken when the backend's
  \<open>/generate_feedback\<close> gives no feedback, and the encoding of the facial-analysis
  result into the \<open>facial\<close> field of the \<open>/generate_feedback\<close> request.  The
  method reads the component's \<open>facialResult\<close> and \<open>transcriptionResult\<close>; the
  model takes them as arguments.
\<close>

section \<open>clientSideFeedbackFallback\<close>

text \<open>
  The facial sentence: for an object, its \<open>dominant_emotion\<close> when it has one, else
  the list of its keys; for an error string, a fixed sentence.
\<close>

definition facial_part :: "jsval \<Rightarrow> string" where
  "facial_part f =
     (if truthy f \<and> js_typeof f = ''object'' then
        (if js_has f ''dominant_emotion'' = Inr True
         then ''I detected a '' @ js_to_string (js_prop f ''dominant_emotion'') @ '' expression. ''
         else (let keys = (case js_keys f of Inr ks \<Rightarrow> ks | Inl _ \<Rightarrow> [])
               in if keys \<noteq> [] then ''Facial analysis detected: '' @ js_join '', '' keys @ ''. '' else []))
      else if js_typeof f = ''string'' \<and> starts_with (js_to_string f) ''Error''
      then ''Facial analysis was not available. ''
      else [])"

text \<open>The sentence chosen by the number of words of the transcription.\<close>

definition length_advice :: "nat \<Rightarrow> string" where
  "length_advice words =
     (if words = 0 then ''No speech detected. Try speaking more clearly and a bit louder.''
      else if words < 20 then ''Your answer was short; consider expanding with a brief example or two.''
      else ''Good length. Try to structure your answer with problem, action and result.'')"

text \<open>
  \<open>(this.transcriptionResult || '').split(/\s+/)\<close> throws a \<open>TypeError\<close> when the
  transcription is a truthy value that is not a string (it has no \<open>split\<close> method).
\<close>

definition clientSideFeedbackFallback :: "jsval \<Rightarrow> jsval \<Rightarrow> js_error + string" where
  "clientSideFeedbackFallback facial transcription =
     (case js_or transcription (JStr []) of
        JStr s \<Rightarrow> Inr (js_trim (facial_part facial @ length_advice (js_word_count s)))
      | _ \<Rightarrow> Inl TypeError)"

section \<open>The facial field of the feedback request\<close>

text \<open>
  \<open>typeof f === 'string' ? f : JSON.stringify(f || {})\<close>, converted by
  \<open>FormData.append\<close> (an undefined result would become \<open>"undefined"\<close>).  The
  \<open>catch\<close> around it cannot fire: \<open>JSON.stringify\<close> throws only on cyclic
  structures and BigInts, which JSON responses do not contain.
\<close>

definition facial_field :: "jsval \<Rightarrow> string" where
  "facial_field f =
     (if js_typeof f = ''string'' then js_to_string f
      else (case json_stringify (js_or f (JObj [])) of Some t \<Rightarrow> t | None \<Rightarrow> ''undefined''))"


section \<open>Lemmas\<close>

lemma facial_part_hd: "facial_part f = [] \<or> hd (facial_part f) \<in> {CHR ''I'', CHR ''F''}"
  by (simp add: facial_part_def Let_def)

lemma length_advice_shape:
  "length_advice n \<noteq> [] \<and> hd (length_advice n) \<in> {CHR ''N'', CHR ''Y'', CHR ''G''} \<and> last (length_advice n) = CHR ''.''"
  by (simp add: length_advice_def)

lemma fallback_text_trim: "js_trim (facial_part f @ length_advice n) = facial_part f @ length_advice n"
proof (rule js_trim_id)
  show "facial_part f @ length_advice n \<noteq> []"
    using length_advice_shape by simp
  show "\<not> is_js_space (hd (facial_part f @ length_advice n))"
    using facial_part_hd [of f] length_advice_shape [of n]
    by (cases "facial_part f = []") (auto simp: is_js_space_def)
  show "\<not> is_js_space (last (facial_part f @ length_advice n))"
    using length_advice_shape [of n] by (simp add: is_js_space_def)
qed

text \<open>
  Claim C4.  On a string transcription the fallback is the facial sentence followed by
  the advice for the number of words, counted as word starts; \<open>trim()\<close> removes
  nothing.
\<close>

lemma fallback_text:
  "clientSideFeedbackFallback f (JStr s) = Inr (facial_part f @ length_advice (word_count s))"
proof -
  have "js_word_count t = word_count t" for t
    using split_ws_count [of "[]" t] by (simp add: js_word_count_def js_split_ws_def word_count_def)
  then show ?thesis
    by (simp add: clientSideFeedbackFallback_def js_or_def fallback_text_trim split: jsval.splits)
qed

lemma fallback_falsy:
  "\<not> truthy t \<Longrightarrow> clientSideFeedbackFallback f t = Inr (facial_part f @ length_advice 0)"
  by (simp add: clientSideFeedbackFallback_def js_or_def fallback_text_trim js_word_count_def js_split_ws_def)

lemma fallback_nonempty: "clientSideFeedbackFallback f t = Inr r \<Longrightarrow> r \<noteq> []"
  using length_advice_shape
  by (auto simp: clientSideFeedbackFallback_def fallback_text_trim split: jsval.splits)

text \<open>
  Claim C5.  The fallback throws exactly when the transcription is a truthy value that
  is not a string, i.e. has no \<open>split\<close> method.
\<close>

lemma fallback_throws_iff:
  "(\<exists>e. clientSideFeedbackFallback f t = Inl e) \<longleftrightarrow> truthy t \<and> js_typeof t \<noteq> ''string''"
  by (cases t) (simp_all add: clientSideFeedbackFallback_def js_or_def)

lemma facial_field_string: "facial_field (JStr s) = s"
  by (simp add: facial_field_def)

lemma facial_field_object:
  "js_typeof f \<noteq> ''string'' \<Longrightarrow> truthy f \<Longrightarrow> json_stringify f = Some (facial_field f)"
  by (cases f) (simp_all add: facial_field_def js_or_def)

lemma facial_field_falsy:
  "js_typeof f \<noteq> ''string'' \<Longrightarrow> \<not> truthy f \<Longrightarrow> facial_field f = ''{}''"
  by (cases f) (simp_all add: facial_field_def js_or_def own_props_def)

end
