(* ===== verification/Interview.thy ===== *)
theory Interview
  imports Runtime Feedback
begin

text \<open>
  \<open>FrontComponent\<close> (src/frontend/cv-quiz-frontend/src/app/front/front.component.ts),
  the interview page: upload a CV, get questions, hear each question, record the
  answer, have it analysed and transcribed, get feedback and hear it.  The component's
  fields form the record \<open>front\<close>; the browser's \<open>MediaRecorder\<close> objects extend it
  (\<open>fworld\<close>) with the recorders that are recording and the identity the next one will
  get.  Every asynchronous continuation of the code is a task of type \<open>ftask\<close>, run
  by \<open>front_step\<close> when the environment completes it.  The secret the code sends as
  \<open>api_key\<close> is a parameter \<open>key\<close> of the model.
\<close>

section \<open>State\<close>

record front =
  mediaRecorder :: "nat option"
  recordedChunks :: "chunk list"
  recording :: bool
  facialResult :: jsval
  transcriptionResult :: jsval
  cvSummary :: jsval
  generatedQuestions :: jsval
  currentQuestionIndex :: int
  currentQuestion :: jsval
  cvUploading :: bool
  interviewFinished :: bool
  questionPlaying :: bool
  feedbackText :: jsval
  feedbackLoading :: bool
  feedbackPlaying :: bool

record fworld = front +
  recorders :: "nat list"
  next_rec :: nat

datatype ftask =
    TSummarize              \<comment> \<open>\<open>/summarize_cv\<close> subscription of \<open>onCVSelected\<close>\<close>
  | TQuestions              \<comment> \<open>\<open>/generate_questions\<close> subscription\<close>
  | TQuestionTts            \<comment> \<open>\<open>/text_to_speech\<close> of \<open>playCurrentQuestion\<close>\<close>
  | TQuestionAudio          \<comment> \<open>the question's \<open>audio.onended\<close>\<close>
  | TUserMedia              \<comment> \<open>the awaited \<open>getUserMedia\<close> of \<open>startRecording\<close>\<close>
  | TRecorderStop nat       \<comment> \<open>the stop task of a recorder: \<open>ondataavailable\<close>, then \<open>onstop\<close>\<close>
  | TAnalyze "chunk list"   \<comment> \<open>\<open>/analyze_video\<close>, with the blob of the answer\<close>
  | TTranscribe             \<comment> \<open>\<open>/transcribe_audio\<close>\<close>
  | TFeedback               \<comment> \<open>\<open>/generate_feedback\<close> of \<open>requestFeedback\<close>\<close>
  | TFeedbackTts            \<comment> \<open>\<open>/text_to_speech\<close> of \<open>playFeedback\<close>\<close>
  | TFeedbackAudio          \<comment> \<open>the feedback's \<open>audio.onended\<close>\<close>

type_synonym fw = "(fworld, ftask) runtime"

text \<open>Field initialisers of the class; no recorder exists yet.\<close>

definition front_init :: fw where
  "front_init = rt_init
     \<lparr>mediaRecorder = None, recordedChunks = [], recording = False, facialResult = JNull,
      transcriptionResult = JStr [], cvSummary = JStr [], generatedQuestions = JArr [],
      currentQuestionIndex = 0, currentQuestion = JNull, cvUploading = False,
      interviewFinished = False, questionPlaying = False, feedbackText = JNull,
      feedbackLoading = False, feedbackPlaying = False, recorders = [], next_rec = 0\<rparr>"

section \<open>Requests\<close>

definition backend :: "string \<Rightarrow> string" where
  "backend path = ''http://127.0.0.1:8000/'' @ path"

definition summarize_req :: "string \<Rightarrow> request" where
  "summarize_req name =
     \<lparr>req_url = backend ''summarize_cv'', req_body = Form [(''file'', FFile (FileBlob name) name)],
      req_resp = AsJson\<rparr>"

definition questions_req :: "string \<Rightarrow> jsval \<Rightarrow> request" where
  "questions_req key summary =
     \<lparr>req_url = backend ''generate_questions'',
      req_body = Form [form_text ''summary'' summary, (''api_key'', FText key), (''num_questions'', FText ''4'')],
      req_resp = AsJson\<rparr>"

definition tts_req :: "string \<Rightarrow> request" where
  "tts_req text = \<lparr>req_url = backend ''text_to_speech'', req_body = Form [(''text'', FText text)], req_resp = AsBlob\<rparr>"

definition analyze_req :: "chunk list \<Rightarrow> request" where
  "analyze_req b =
     \<lparr>req_url = backend ''analyze_video'', req_body = Form [(''file'', FFile (ChunkBlob b) ''interview.mp4'')],
      req_resp = AsJson\<rparr>"

definition transcribe_req :: "chunk list \<Rightarrow> request" where
  "transcribe_req b =
     \<lparr>req_url = backend ''transcribe_audio'', req_body = Form [(''file'', FFile (ChunkBlob b) ''interview.mp4'')],
      req_resp = AsJson\<rparr>"

definition feedback_req :: "string \<Rightarrow> string \<Rightarrow> request" where
  "feedback_req summary facial =
     \<lparr>req_url = backend ''generate_feedback'',
      req_body = Form [(''summary'', FText summary), (''facial'', FText facial)], req_resp = AsJson\<rparr>"

section \<open>Methods and callbacks\<close>

text \<open>
  Reads of \<open>this.generatedQuestions.length\<close> and \<open>this.generatedQuestions[i]\<close> use
  \<open>js_prop\<close>: the field is never null or undefined (lemma \<open>front_reach_q_inv\<close> of theory \<open>Questions\<close>),
  so the read cannot throw.
\<close>

subsection \<open>Questions\<close>

definition playCurrentQuestion :: "fw \<Rightarrow> fw" where
  "playCurrentQuestion w =
     (let s = st w; gq = generatedQuestions s; i = currentQuestionIndex s
      in if \<not> truthy gq \<or> js_geq i (js_prop gq ''length'') then w
         else let q = js_prop gq (int_str i)
              in post (tts_req (js_to_string q)) TQuestionTts
                   (update_st (\<lambda>s. s\<lparr>currentQuestion := q, questionPlaying := True\<rparr>) w))"

definition onCVSelected :: "string option \<Rightarrow> fw \<Rightarrow> fw" where
  "onCVSelected file w =
     (case file of
        None \<Rightarrow> w
      | Some name \<Rightarrow> post (summarize_req name) TSummarize (update_st (\<lambda>s. s\<lparr>cvUploading := True\<rparr>) w))"

definition summarize_ok :: "string \<Rightarrow> jsval \<Rightarrow> fw \<Rightarrow> js_error + fw" where
  "summarize_ok key res w =
     (case js_get res ''summary'' of
        Inl e \<Rightarrow> Inl e
      | Inr v \<Rightarrow>
          let summary = js_or v (JStr [])
          in Inr (post (questions_req key summary) TQuestions (update_st (\<lambda>s. s\<lparr>cvSummary := summary\<rparr>) w)))"

definition summarize_err :: "fw \<Rightarrow> fw" where
  "summarize_err w = update_st (\<lambda>s. s\<lparr>cvSummary := JStr ''Error summarizing CV'', cvUploading := False\<rparr>) w"

definition questions_ok :: "jsval \<Rightarrow> fw \<Rightarrow> js_error + fw" where
  "questions_ok res w =
     (case js_get res ''questions'' of
        Inl e \<Rightarrow> Inl e
      | Inr v \<Rightarrow>
          let gq = js_or v (JArr []);
              w1 = update_st (\<lambda>s. s\<lparr>generatedQuestions := gq, currentQuestionIndex := 0,
                     currentQuestion := js_prop gq ''0'', cvUploading := False, interviewFinished := False\<rparr>) w
          in Inr (if js_less 0 (js_prop gq ''length'') then playCurrentQuestion w1 else w1))"

definition questions_err :: "fw \<Rightarrow> fw" where
  "questions_err w =
     update_st (\<lambda>s. s\<lparr>generatedQuestions := JArr [JStr ''Error generating questions''], cvUploading := False\<rparr>) w"

definition nextQuestion :: "fw \<Rightarrow> fw" where
  "nextQuestion w =
     (let s = st w; gq = generatedQuestions s; i = currentQuestionIndex s
      in if (case js_to_int (js_prop gq ''length'') of Some l \<Rightarrow> i < l - 1 | None \<Rightarrow> False)
         then playCurrentQuestion
                (update_st (\<lambda>s. s\<lparr>currentQuestionIndex := i + 1, currentQuestion := js_prop gq (int_str (i + 1)),
                   facialResult := JNull, transcriptionResult := JStr [], feedbackText := JNull\<rparr>) w)
         else update_st (\<lambda>s. s\<lparr>interviewFinished := True\<rparr>) w)"

subsection \<open>Recording\<close>

text \<open>\<open>startRecording\<close> runs up to its \<open>await\<close>; the rest runs when the promise resolves.\<close>

definition startRecording :: "fw \<Rightarrow> fw" where
  "startRecording w = schedule TUserMedia w"

definition media_granted :: "fw \<Rightarrow> fw" where
  "media_granted w =
     (let r = next_rec (st w)
      in update_st (\<lambda>s. s\<lparr>recordedChunks := [], mediaRecorder := Some r, recorders := recorders s @ [r],
            next_rec := Suc r, recording := True, facialResult := JNull, transcriptionResult := JStr [],
            feedbackText := JNull\<rparr>) w)"

text \<open>
  \<open>MediaRecorder.stop()\<close> on a recording recorder makes it inactive and queues one task
  that fires \<open>dataavailable\<close> and then \<open>stop\<close>; on an inactive one it does nothing.
\<close>

definition stopRecording :: "fw \<Rightarrow> fw" where
  "stopRecording w =
     (case mediaRecorder (st w) of
        None \<Rightarrow> w
      | Some r \<Rightarrow>
          update_st (\<lambda>s. s\<lparr>recording := False\<rparr>)
            (if r \<in> set (recorders (st w))
             then schedule (TRecorderStop r) (update_st (\<lambda>s. s\<lparr>recorders := removeAll r (recorders s)\<rparr>) w)
             else w))"

text \<open>
  The stop task of recorder \<open>r\<close>: \<open>ondataavailable\<close> pushes the data into
  \<open>this.recordedChunks\<close> if it is not empty, then \<open>onstop\<close> uploads
  \<open>new Blob(this.recordedChunks)\<close>, read at this moment, to \<open>/analyze_video\<close>.
\<close>

definition recorder_stopped :: "nat \<Rightarrow> nat \<Rightarrow> fw \<Rightarrow> fw" where
  "recorder_stopped r sz w =
     (let chunks = recordedChunks (st w) @ (if 0 < sz then [(r, sz)] else [])
      in post (analyze_req chunks) (TAnalyze chunks) (update_st (\<lambda>s. s\<lparr>recordedChunks := chunks\<rparr>) w))"

subsection \<open>Analysis and feedback\<close>

definition requestFeedback :: "fw \<Rightarrow> fw" where
  "requestFeedback w =
     (let s = st w
      in post (feedback_req (js_to_string (js_or (transcriptionResult s) (JStr []))) (facial_field (facialResult s)))
           TFeedback (update_st (\<lambda>s. s\<lparr>feedbackLoading := True, feedbackText := JNull\<rparr>) w))"

text \<open>Both callbacks of \<open>/analyze_video\<close> store a facial result and request the transcription.\<close>

definition analyze_done :: "chunk list \<Rightarrow> jsval \<Rightarrow> fw \<Rightarrow> fw" where
  "analyze_done b facial w = post (transcribe_req b) TTranscribe (update_st (\<lambda>s. s\<lparr>facialResult := facial\<rparr>) w)"

definition transcribed :: "jsval \<Rightarrow> fw \<Rightarrow> fw" where
  "transcribed t w = requestFeedback (update_st (\<lambda>s. s\<lparr>transcriptionResult := t\<rparr>) w)"

definition transcribe_ok :: "jsval \<Rightarrow> fw \<Rightarrow> js_error + fw" where
  "transcribe_ok res w =
     (case js_get res ''transcription'' of
        Inl e \<Rightarrow> Inl e
      | Inr v \<Rightarrow> Inr (transcribed (js_or v (JStr [])) w))"

definition playFeedback :: "fw \<Rightarrow> fw" where
  "playFeedback w =
     (let t = feedbackText (st w)
      in if \<not> truthy t then w
         else post (tts_req (js_to_string t)) TFeedbackTts (update_st (\<lambda>s. s\<lparr>feedbackPlaying := True\<rparr>) w))"

definition feedback_set :: "jsval \<Rightarrow> fw \<Rightarrow> fw" where
  "feedback_set t w =
     (let w1 = update_st (\<lambda>s. s\<lparr>feedbackText := t, feedbackLoading := False\<rparr>) w
      in if truthy t then playFeedback w1 else w1)"

definition feedback_fallback :: "fw \<Rightarrow> js_error + fw" where
  "feedback_fallback w =
     (case clientSideFeedbackFallback (facialResult (st w)) (transcriptionResult (st w)) of
        Inl e \<Rightarrow> Inl e
      | Inr txt \<Rightarrow> Inr (feedback_set (JStr txt) w))"

text \<open>\<open>res?.feedback || this.clientSideFeedbackFallback()\<close>\<close>

definition feedback_ok :: "jsval \<Rightarrow> fw \<Rightarrow> js_error + fw" where
  "feedback_ok res w =
     (let fb = (if res = JNull \<or> res = JUndefined then JUndefined else js_prop res ''feedback'')
      in if truthy fb then Inr (feedback_set fb w) else feedback_fallback w)"

section \<open>Events\<close>

text \<open>
  What can happen next: the user calls a public method from the page (the template is
  not part of the sources, so every public method is available), or the environment
  completes pending task \<open>i\<close>: an HTTP response or error, the \<open>getUserMedia\<close>
  promise resolving or rejecting, an audio element ending or refusing to play
  (autoplay blocked, \<open>onended\<close> never fires), a recorder's stop task with the size of
  its data.
\<close>

datatype fevent =
    SelectCv "string option"
  | PlayQuestion | StartRecording | StopRecording | PlayFeedback | NextQuestion
  | HttpOk nat jsval | HttpFail nat
  | MediaOk nat | MediaDenied nat
  | AudioEnded nat | AudioBlocked nat
  | RecorderDone nat nat

fun is_http :: "ftask \<Rightarrow> bool" where
  "is_http TQuestionAudio = False"
| "is_http TUserMedia = False"
| "is_http (TRecorderStop r) = False"
| "is_http TFeedbackAudio = False"
| "is_http t = True"

fun is_audio :: "ftask \<Rightarrow> bool" where
  "is_audio TQuestionAudio = True"
| "is_audio TFeedbackAudio = True"
| "is_audio t = False"

text \<open>
  The \<open>next\<close> callbacks of the subscriptions.  The text-to-speech callbacks pass the
  blob to \<open>URL.createObjectURL\<close>, which throws a \<open>TypeError\<close> on the \<open>null\<close>
  body of an empty response; otherwise the audio element starts and its
  \<open>onended\<close> handler is pending.
\<close>

fun on_ok :: "string \<Rightarrow> ftask \<Rightarrow> jsval \<Rightarrow> fw \<Rightarrow> fw" where
  "on_ok key TSummarize v w = settle w (summarize_ok key v w)"
| "on_ok key TQuestions v w = settle w (questions_ok v w)"
| "on_ok key TQuestionTts v w = (if v = JNull then throw TypeError w else schedule TQuestionAudio w)"
| "on_ok key (TAnalyze b) v w = analyze_done b v w"
| "on_ok key TTranscribe v w = settle w (transcribe_ok v w)"
| "on_ok key TFeedback v w = settle w (feedback_ok v w)"
| "on_ok key TFeedbackTts v w = (if v = JNull then throw TypeError w else schedule TFeedbackAudio w)"
| "on_ok key t v w = w"

text \<open>The \<open>error\<close> callbacks.\<close>

fun on_fail :: "ftask \<Rightarrow> fw \<Rightarrow> fw" where
  "on_fail TSummarize w = summarize_err w"
| "on_fail TQuestions w = questions_err w"
| "on_fail TQuestionTts w = startRecording (update_st (\<lambda>s. s\<lparr>questionPlaying := False\<rparr>) w)"
| "on_fail (TAnalyze b) w = analyze_done b (JStr ''Error analyzing video'') w"
| "on_fail TTranscribe w = transcribed (JStr ''Error transcribing audio'') w"
| "on_fail TFeedback w = settle w (feedback_fallback w)"
| "on_fail TFeedbackTts w = update_st (\<lambda>s. s\<lparr>feedbackPlaying := False\<rparr>) w"
| "on_fail t w = w"

text \<open>\<open>audio.onended\<close>: after a question the recording starts.\<close>

fun audio_ended :: "ftask \<Rightarrow> fw \<Rightarrow> fw" where
  "audio_ended TQuestionAudio w = startRecording (update_st (\<lambda>s. s\<lparr>questionPlaying := False\<rparr>) w)"
| "audio_ended TFeedbackAudio w = update_st (\<lambda>s. s\<lparr>feedbackPlaying := False\<rparr>) w"
| "audio_ended t w = w"

fun stop_task :: "nat \<Rightarrow> ftask \<Rightarrow> fw \<Rightarrow> fw" where
  "stop_task sz (TRecorderStop r) w = recorder_stopped r sz w"
| "stop_task sz t w = w"

fun is_stop :: "ftask \<Rightarrow> bool" where
  "is_stop (TRecorderStop r) = True"
| "is_stop t = False"

fun front_step :: "string \<Rightarrow> fw \<Rightarrow> fevent \<Rightarrow> fw" where
  "front_step key w (SelectCv f) = onCVSelected f w"
| "front_step key w PlayQuestion = playCurrentQuestion w"
| "front_step key w StartRecording = startRecording w"
| "front_step key w StopRecording = stopRecording w"
| "front_step key w PlayFeedback = playFeedback w"
| "front_step key w NextQuestion = nextQuestion w"
| "front_step key w (HttpOk i v) = complete i is_http (\<lambda>t. on_ok key t v) w"
| "front_step key w (HttpFail i) = complete i is_http on_fail w"
| "front_step key w (MediaOk i) = complete i (\<lambda>t. t = TUserMedia) (\<lambda>t. media_granted) w"
| "front_step key w (MediaDenied i) = complete i (\<lambda>t. t = TUserMedia) (\<lambda>t. throw NotAllowedError) w"
| "front_step key w (AudioEnded i) = complete i is_audio audio_ended w"
| "front_step key w (AudioBlocked i) = complete i is_audio (\<lambda>t. throw NotAllowedError) w"
| "front_step key w (RecorderDone i sz) = complete i is_stop (stop_task sz) w"

section \<open>Runs and reachable states\<close>

fun front_run :: "string \<Rightarrow> fw \<Rightarrow> fevent list \<Rightarrow> fw" where
  "front_run key w [] = w"
| "front_run key w (e # es) = front_run key (front_step key w e) es"

inductive front_reach :: "string \<Rightarrow> fw \<Rightarrow> bool" for key where
  init: "front_reach key front_init"
| step: "front_reach key w \<Longrightarrow> front_reach key (front_step key w e)"

inductive_cases front_reach_stepE: "front_reach key w"

lemmas handler_defs =
  playCurrentQuestion_def onCVSelected_def summarize_ok_def summarize_err_def questions_ok_def
  questions_err_def nextQuestion_def startRecording_def media_granted_def stopRecording_def
  recorder_stopped_def requestFeedback_def analyze_done_def transcribed_def transcribe_ok_def
  playFeedback_def feedback_set_def feedback_fallback_def feedback_ok_def

text \<open>
  A property \<open>P\<close> of the state that every handler keeps holds after every step.  The
  callback of a completed task \<open>t\<close> may rely on \<open>Q t\<close>, what the removal of \<open>t\<close>
  from the queue establishes; \<open>onCVSelected\<close> need only keep \<open>P\<close> when the event
  selects a file.
\<close>

lemma front_step_preserves_tasks:
  assumes take: "\<And>w i t w'. P w \<Longrightarrow> take_task i w = Some (t, w') \<Longrightarrow> Q t w'"
    and sel: "\<And>f. e = SelectCv f \<Longrightarrow> P (onCVSelected f w)"
    and play: "\<And>w. P w \<Longrightarrow> P (playCurrentQuestion w)"
    and start: "\<And>w. P w \<Longrightarrow> P (startRecording w)"
    and stop: "\<And>w. P w \<Longrightarrow> P (stopRecording w)"
    and playf: "\<And>w. P w \<Longrightarrow> P (playFeedback w)"
    and nxt: "\<And>w. P w \<Longrightarrow> P (nextQuestion w)"
    and ok: "\<And>w t v. Q t w \<Longrightarrow> P (on_ok key t v w)"
    and fail: "\<And>w t. Q t w \<Longrightarrow> P (on_fail t w)"
    and media: "\<And>w. Q TUserMedia w \<Longrightarrow> P (media_granted w)"
    and thr: "\<And>w t err. Q t w \<Longrightarrow> P (throw err w)"
    and audio: "\<And>w t. Q t w \<Longrightarrow> P (audio_ended t w)"
    and stopt: "\<And>w t sz. Q t w \<Longrightarrow> P (stop_task sz t w)"
    and pw: "P w"
  shows "P (front_step key w e)"
proof -
  have compl: "P (complete i ok' f w)" if fr: "\<And>t w''. ok' t \<Longrightarrow> Q t w'' \<Longrightarrow> P (f t w'')" for i ok' f
    using complete_preserves [where Q = Q, OF take [OF pw] fr pw] .
  have cm: "P (complete i (\<lambda>t. t = TUserMedia) (\<lambda>t. media_granted) w)" for i
    by (rule compl) (auto intro: media)
  show ?thesis
    by (cases e) (simp_all add: pw compl cm sel play start stop playf nxt ok fail thr audio stopt)
qed

lemma front_step_preserves:
  assumes take: "\<And>w i t w'. P w \<Longrightarrow> take_task i w = Some (t, w') \<Longrightarrow> P w'"
    and sel: "\<And>w f. P w \<Longrightarrow> P (onCVSelected f w)"
    and play: "\<And>w. P w \<Longrightarrow> P (playCurrentQuestion w)"
    and start: "\<And>w. P w \<Longrightarrow> P (startRecording w)"
    and stop: "\<And>w. P w \<Longrightarrow> P (stopRecording w)"
    and playf: "\<And>w. P w \<Longrightarrow> P (playFeedback w)"
    and nxt: "\<And>w. P w \<Longrightarrow> P (nextQuestion w)"
    and ok: "\<And>w t v. P w \<Longrightarrow> P (on_ok key t v w)"
    and fail: "\<And>w t. P w \<Longrightarrow> P (on_fail t w)"
    and media: "\<And>w. P w \<Longrightarrow> P (media_granted w)"
    and thr: "\<And>w e. P w \<Longrightarrow> P (throw e w)"
    and audio: "\<And>w t. P w \<Longrightarrow> P (audio_ended t w)"
    and stopt: "\<And>w t sz. P w \<Longrightarrow> P (stop_task sz t w)"
    and pw: "P w"
  shows "P (front_step key w e)"
  by (rule front_step_preserves_tasks [where Q = "\<lambda>t. P"])
     (auto intro: take sel play start stop playf nxt ok fail media thr audio stopt pw)

lemma front_reach_run: "front_reach key w \<Longrightarrow> front_reach key (front_run key w es)"
  by (induction es arbitrary: w) (auto intro: front_reach.step)

lemma front_reach_run_init: "front_reach key (front_run key front_init es)"
  by (rule front_reach_run [OF front_reach.init])

end
