(* ===== verification/Recorder.thy ===== *)
theory Recorder
  imports Interview
begin

text \<open>
  The recording part of \<open>FrontComponent\<close>: which \<open>MediaRecorder\<close> objects record,
  which one \<open>this.mediaRecorder\<close> holds, and which stop tasks are pending.  Every
  handler other than \<open>media_granted\<close> (the rest of \<open>startRecording\<close>),
  \<open>stopRecording\<close> and the completion of a task leaves this part unchanged
  (\<open>rec_proj_*\<close> lemmas); the invariant \<open>rec_inv\<close> holds in every reachable state.
\<close>

section \<open>The recording view of the state\<close>

definition rec_proj :: "fw \<Rightarrow> (nat option \<times> bool \<times> nat list \<times> nat) \<times> ftask list" where
  "rec_proj w =
     ((mediaRecorder (st w), recording (st w), recorders (st w), next_rec (st w)), filter is_stop (tasks w))"

definition rec_inv :: "fw \<Rightarrow> bool" where
  "rec_inv w \<longleftrightarrow>
     distinct (recorders (st w))
     \<and> (\<forall>r \<in> set (recorders (st w)). r < next_rec (st w))
     \<and> (\<forall>r. mediaRecorder (st w) = Some r \<longrightarrow> r < next_rec (st w))
     \<and> (recording (st w) \<longrightarrow> (\<exists>r. mediaRecorder (st w) = Some r \<and> r \<in> set (recorders (st w))))
     \<and> (\<forall>r. TRecorderStop r \<in> set (filter is_stop (tasks w)) \<longrightarrow>
              r \<notin> set (recorders (st w)) \<and> r < next_rec (st w))
     \<and> distinct (filter is_stop (tasks w))"

text \<open>
  \<open>startRecording\<close> replaces \<open>this.mediaRecorder\<close> without stopping the recorder it
  held, and \<open>stopRecording\<close> only stops the one it holds.  A recorder that records
  but is no longer held, with the identities of later recorders all larger, stays so.
\<close>

definition leak_inv :: "nat \<Rightarrow> fw \<Rightarrow> bool" where
  "leak_inv r w \<longleftrightarrow> r \<in> set (recorders (st w)) \<and> mediaRecorder (st w) \<noteq> Some r \<and> r < next_rec (st w)"

named_theorems rec_proj_simps "handlers that leave the recording view unchanged"

lemma rec_inv_proj: "rec_proj w' = rec_proj w \<Longrightarrow> rec_inv w' = rec_inv w"
  by (simp add: rec_proj_def rec_inv_def)

lemma rec_proj_post [rec_proj_simps]: "\<not> is_stop t \<Longrightarrow> rec_proj (post rq t w) = rec_proj w"
  by (simp add: rec_proj_def)

lemma rec_proj_schedule [rec_proj_simps]: "\<not> is_stop t \<Longrightarrow> rec_proj (schedule t w) = rec_proj w"
  by (simp add: rec_proj_def)

lemma rec_proj_throw [rec_proj_simps]: "rec_proj (throw e w) = rec_proj w"
  by (simp add: rec_proj_def)

lemma rec_proj_update_st [rec_proj_simps]:
  "mediaRecorder (f (st w)) = mediaRecorder (st w) \<Longrightarrow> recording (f (st w)) = recording (st w) \<Longrightarrow>
   recorders (f (st w)) = recorders (st w) \<Longrightarrow> next_rec (f (st w)) = next_rec (st w) \<Longrightarrow>
   rec_proj (update_st f w) = rec_proj w"
  by (simp add: rec_proj_def)

lemma rec_proj_settle [rec_proj_simps]:
  "(\<And>w'. r = Inr w' \<Longrightarrow> rec_proj w' = rec_proj w) \<Longrightarrow> rec_proj (settle w r) = rec_proj w"
  by (cases r) (simp_all add: rec_proj_throw)

section \<open>Handlers that do not touch the recorders\<close>

lemma rec_proj_playCurrentQuestion [rec_proj_simps]: "rec_proj (playCurrentQuestion w) = rec_proj w"
  by (simp add: playCurrentQuestion_def Let_def rec_proj_simps)

lemma rec_proj_onCVSelected [rec_proj_simps]: "rec_proj (onCVSelected f w) = rec_proj w"
  by (simp add: onCVSelected_def rec_proj_simps split: option.split)

lemma rec_proj_summarize [rec_proj_simps]:
  "rec_proj (settle w (summarize_ok key v w)) = rec_proj w" "rec_proj (summarize_err w) = rec_proj w"
  by (auto simp: summarize_ok_def summarize_err_def Let_def rec_proj_simps split: sum.splits intro!: rec_proj_settle)

lemma rec_proj_questions [rec_proj_simps]:
  "rec_proj (settle w (questions_ok v w)) = rec_proj w" "rec_proj (questions_err w) = rec_proj w"
  by (auto simp: questions_ok_def questions_err_def Let_def rec_proj_simps split: sum.splits intro!: rec_proj_settle)

lemma rec_proj_nextQuestion [rec_proj_simps]: "rec_proj (nextQuestion w) = rec_proj w"
  by (simp add: nextQuestion_def Let_def rec_proj_simps)

lemma rec_proj_startRecording [rec_proj_simps]: "rec_proj (startRecording w) = rec_proj w"
  by (simp add: startRecording_def rec_proj_simps)

lemma rec_proj_requestFeedback [rec_proj_simps]: "rec_proj (requestFeedback w) = rec_proj w"
  by (simp add: requestFeedback_def Let_def rec_proj_simps)

lemma rec_proj_analyze_done [rec_proj_simps]: "rec_proj (analyze_done b v w) = rec_proj w"
  by (simp add: analyze_done_def rec_proj_simps)

lemma rec_proj_transcribed [rec_proj_simps]: "rec_proj (transcribed t w) = rec_proj w"
  by (simp add: transcribed_def rec_proj_simps)

lemma rec_proj_transcribe_ok [rec_proj_simps]: "rec_proj (settle w (transcribe_ok v w)) = rec_proj w"
  by (auto simp: transcribe_ok_def rec_proj_simps split: sum.splits intro!: rec_proj_settle)

lemma rec_proj_playFeedback [rec_proj_simps]: "rec_proj (playFeedback w) = rec_proj w"
  by (simp add: playFeedback_def Let_def rec_proj_simps)

lemma rec_proj_feedback_set [rec_proj_simps]: "rec_proj (feedback_set t w) = rec_proj w"
  by (simp add: feedback_set_def Let_def rec_proj_simps)

lemma rec_proj_feedback [rec_proj_simps]:
  "rec_proj (settle w (feedback_fallback w)) = rec_proj w"
  "rec_proj (settle w (feedback_ok v w)) = rec_proj w"
  by (auto simp: feedback_fallback_def feedback_ok_def Let_def rec_proj_simps
           split: sum.splits intro!: rec_proj_settle)

lemma rec_proj_recorder_stopped [rec_proj_simps]: "rec_proj (recorder_stopped r sz w) = rec_proj w"
  by (simp add: recorder_stopped_def Let_def rec_proj_simps)

lemma rec_proj_on_ok [rec_proj_simps]: "rec_proj (on_ok key t v w) = rec_proj w"
  by (cases t) (simp_all add: rec_proj_simps)

lemma rec_proj_on_fail [rec_proj_simps]: "rec_proj (on_fail t w) = rec_proj w"
  by (cases t) (simp_all add: rec_proj_simps)

lemma rec_proj_audio_ended [rec_proj_simps]: "rec_proj (audio_ended t w) = rec_proj w"
  by (cases t) (simp_all add: rec_proj_simps)

lemma rec_proj_stop_task [rec_proj_simps]: "rec_proj (stop_task sz t w) = rec_proj w"
  by (cases t) (simp_all add: rec_proj_simps)

section \<open>The recorder invariant\<close>

lemma rec_inv_init: "rec_inv front_init"
  by (simp add: rec_inv_def front_init_def rt_init_def)

text \<open>Completing a task removes it; the stop tasks that remain are a sub-multiset.\<close>

lemma rec_inv_take:
  assumes inv: "rec_inv w" and tk: "take_task i w = Some (t, w')"
  shows "rec_inv w'"
proof -
  have st_eq: "st w' = st w"
    using take_task_fields [OF tk] by simp
  have sub: "mset (filter is_stop (tasks w')) \<subseteq># mset (filter is_stop (tasks w))"
    using take_task_mset [OF tk] by (simp add: mset_filter)
  then have set_sub: "set (filter is_stop (tasks w')) \<subseteq> set (filter is_stop (tasks w))"
    by (metis set_mset_mono set_mset_mset)
  have "distinct (filter is_stop (tasks w'))"
    using inv sub unfolding rec_inv_def
    by (blast intro: distinct_sub_mset)
  with inv set_sub show ?thesis
    unfolding rec_inv_def st_eq by blast
qed

lemma rec_inv_media_granted: "rec_inv w \<Longrightarrow> rec_inv (media_granted w)"
  by (auto simp: rec_inv_def media_granted_def Let_def)

lemma rec_inv_stopRecording: "rec_inv w \<Longrightarrow> rec_inv (stopRecording w)"
  by (auto simp: rec_inv_def stopRecording_def distinct_removeAll split: option.splits)

lemma rec_inv_frame: "rec_inv w \<Longrightarrow> rec_proj w' = rec_proj w \<Longrightarrow> rec_inv w'"
  by (metis rec_inv_proj)

text \<open>
  Any property of the recording view that \<open>media_granted\<close>, \<open>stopRecording\<close> and the
  removal of a completed task keep is kept by every step: the other handlers do not
  change the view.
\<close>

lemma rec_step_preserves:
  assumes proj: "\<And>w w'. P w \<Longrightarrow> rec_proj w' = rec_proj w \<Longrightarrow> P w'"
    and take: "\<And>w i t w'. P w \<Longrightarrow> take_task i w = Some (t, w') \<Longrightarrow> P w'"
    and media: "\<And>w. P w \<Longrightarrow> P (media_granted w)"
    and stop: "\<And>w. P w \<Longrightarrow> P (stopRecording w)"
    and pw: "P w"
  shows "P (front_step key w e)"
  by (rule front_step_preserves [OF take proj [OF _ rec_proj_onCVSelected]
        proj [OF _ rec_proj_playCurrentQuestion] proj [OF _ rec_proj_startRecording] stop
        proj [OF _ rec_proj_playFeedback] proj [OF _ rec_proj_nextQuestion] proj [OF _ rec_proj_on_ok]
        proj [OF _ rec_proj_on_fail] media proj [OF _ rec_proj_throw] proj [OF _ rec_proj_audio_ended]
        proj [OF _ rec_proj_stop_task] pw])

lemma rec_inv_step: "rec_inv w \<Longrightarrow> rec_inv (front_step key w e)"
  by (rule rec_step_preserves [where P = rec_inv,
        OF rec_inv_frame rec_inv_take rec_inv_media_granted rec_inv_stopRecording])

lemma front_reach_rec_inv: "front_reach key w \<Longrightarrow> rec_inv w"
proof (induction rule: front_reach.induct)
  case init
  show ?case by (rule rec_inv_init)
next
  case (step w e)
  from step.IH show ?case by (rule rec_inv_step)
qed

section \<open>A recorder that is not \<open>this.mediaRecorder\<close>\<close>

lemma leak_inv_step: "leak_inv r w \<Longrightarrow> leak_inv r (front_step key w e)"
proof (rule rec_step_preserves [where P = "leak_inv r"])
  show "leak_inv r w'" if "leak_inv r w" "rec_proj w' = rec_proj w" for w w'
    using that by (simp add: leak_inv_def rec_proj_def)
  show "leak_inv r w'" if "leak_inv r w" "take_task i w = Some (t, w')" for w i t w'
    using that take_task_fields [OF that(2)] by (simp add: leak_inv_def)
  show "leak_inv r (media_granted w)" if "leak_inv r w" for w
    using that by (auto simp: leak_inv_def media_granted_def Let_def)
  show "leak_inv r (stopRecording w)" if "leak_inv r w" for w
    using that by (auto simp: leak_inv_def stopRecording_def split: option.splits)
qed

lemma leak_inv_run: "leak_inv r w \<Longrightarrow> leak_inv r (front_run key w es)"
  by (induction es arbitrary: w) (simp_all add: leak_inv_step)

section \<open>Properties\<close>

text \<open>
  Claim C1.  In every reachable state, if the component is recording then
  \<open>this.mediaRecorder\<close> holds a recorder that records, so \<open>stopRecording\<close> stops it
  and queues exactly one stop task for it, whose \<open>onstop\<close> uploads the answer.
\<close>

theorem stop_while_recording:
  assumes "front_reach key w" and "recording (st w)"
  shows "\<exists>r. mediaRecorder (st w) = Some r \<and> tasks (stopRecording w) = tasks w @ [TRecorderStop r]
             \<and> r \<notin> set (recorders (st (stopRecording w))) \<and> \<not> recording (st (stopRecording w))"
proof -
  from front_reach_rec_inv [OF assms(1)] assms(2)
  obtain r where r: "mediaRecorder (st w) = Some r" "r \<in> set (recorders (st w))"
    by (auto simp: rec_inv_def)
  then show ?thesis by (simp add: stopRecording_def)
qed

theorem stop_while_recording_witness:
  "recording (st (front_run ''k'' front_init [StartRecording, MediaOk 0])) \<and>
   tasks (stopRecording (front_run ''k'' front_init [StartRecording, MediaOk 0])) = [TRecorderStop 0]"
proof -
  let ?w = "front_run ''k'' front_init [StartRecording, MediaOk 0]"
  have h: "recording (st ?w)" by code_simp
  have t: "tasks ?w = []" by code_simp
  have m: "mediaRecorder (st ?w) = Some 0" by code_simp
  from stop_while_recording [OF front_reach_run_init h] t m h show ?thesis by auto
qed

text \<open>
  Claim C2.  In every reachable state each recorder has at most one pending stop task,
  and only once it has stopped recording: an answer is uploaded at most once per stop.
\<close>

theorem stop_task_once:
  "front_reach key w \<Longrightarrow>
     distinct (filter is_stop (tasks w)) \<and>
     (\<forall>r. TRecorderStop r \<in> set (tasks w) \<longrightarrow> r \<notin> set (recorders (st w)))"
  by (drule front_reach_rec_inv) (auto simp: rec_inv_def)

theorem stop_task_once_witness:
  "distinct (filter is_stop (tasks (front_run ''k'' front_init [StartRecording, MediaOk 0, StopRecording, StopRecording])))"
  using stop_task_once [OF front_reach_run_init [of "''k''" "[StartRecording, MediaOk 0, StopRecording, StopRecording]"]]
  by blast

text \<open>
  Claim C3.  A recorder that still records but is no longer \<open>this.mediaRecorder\<close>
  records for ever, whatever happens next: nothing in the component can stop it.  It
  arises when a new recording starts (after \<open>nextQuestion\<close> and the question's audio)
  before the previous one was stopped.
\<close>

theorem leaked_recorder_never_stops:
  assumes "front_reach key w" and "r \<in> set (recorders (st w))" and "mediaRecorder (st w) \<noteq> Some r"
  shows "r \<in> set (recorders (st (front_run key w es)))"
proof -
  have "r < next_rec (st w)"
    using front_reach_rec_inv [OF assms(1)] assms(2) by (simp add: rec_inv_def)
  with assms(2,3) have "leak_inv r w" by (simp add: leak_inv_def)
  then have "leak_inv r (front_run key w es)" by (rule leak_inv_run)
  then show ?thesis by (simp add: leak_inv_def)
qed

theorem leaked_recorder_never_stops_witness:
  "0 \<in> set (recorders (st (front_run ''k''
      (front_run ''k'' front_init
         [SelectCv (Some ''cv.pdf''),
          HttpOk 0 (JObj [(''summary'', JStr ''Backend developer'')]),
          HttpOk 0 (JObj [(''questions'', JArr [JStr ''Q1'', JStr ''Q2''])]),
          HttpOk 0 (JObj []), AudioEnded 0, MediaOk 0,
          NextQuestion, HttpOk 0 (JObj []), AudioEnded 0, MediaOk 0])
      [StopRecording, RecorderDone 0 100, StopRecording])))"
proof -
  let ?w = "front_run ''k'' front_init
         [SelectCv (Some ''cv.pdf''),
          HttpOk 0 (JObj [(''summary'', JStr ''Backend developer'')]),
          HttpOk 0 (JObj [(''questions'', JArr [JStr ''Q1'', JStr ''Q2''])]),
          HttpOk 0 (JObj []), AudioEnded 0, MediaOk 0,
          NextQuestion, HttpOk 0 (JObj []), AudioEnded 0, MediaOk 0]"
  have a: "0 \<in> set (recorders (st ?w))" by code_simp
  have b: "mediaRecorder (st ?w) \<noteq> Some 0" by code_simp
  show ?thesis
    by (rule leaked_recorder_never_stops [OF front_reach_run_init a b])
qed

end
