(* ===== verification/Questions.thy ===== *)
theory Questions
  imports Recorder
begin

text \<open>
  The question flow of \<open>FrontComponent\<close>: the generated questions, the index of the
  current one, \<open>playCurrentQuestion\<close> and \<open>nextQuestion\<close>.  The invariant
  \<open>q_inv\<close> (the index is never negative, the question list never nullish) holds in
  every reachable state, and so does the bound \<open>idx_bound\<close> (the index never passes
  the last position, except after a failed generation); on an array of questions the
  handlers read the array as expected, including the empty array, where
  \<open>length - 1\<close> is \<open>-1\<close>; a string of questions is read character by character.
\<close>

definition q_inv :: "fw \<Rightarrow> bool" where
  "q_inv w \<longleftrightarrow> 0 \<le> currentQuestionIndex (st w) \<and> truthy (generatedQuestions (st w))"

text \<open>
  The number \<open>this.generatedQuestions.length\<close> as the comparisons of the code read it
  (a missing or non-numeric length compares as false, written here as 0), and the
  bound on the index: it never passes the last position, except after a failed
  question generation, which replaces the list and keeps the index.
\<close>

definition q_len :: "jsval \<Rightarrow> int" where
  "q_len gq = (case js_to_int (js_prop gq ''length'') of Some l \<Rightarrow> l | None \<Rightarrow> 0)"

definition idx_bound :: "fw \<Rightarrow> bool" where
  "idx_bound w \<longleftrightarrow> generatedQuestions (st w) = JArr [JStr ''Error generating questions''] \<or>
     currentQuestionIndex (st w) \<le> max 0 (q_len (generatedQuestions (st w)) - 1)"

section \<open>The invariant\<close>

lemma q_inv_take: "q_inv w \<Longrightarrow> take_task i w = Some (t, w') \<Longrightarrow> q_inv w'"
  by (drule take_task_fields) (simp add: q_inv_def)

text \<open>Handlers that other handlers call leave the question fields alone.\<close>

lemma q_frame [simp]:
  "generatedQuestions (st (playCurrentQuestion w)) = generatedQuestions (st w)"
  "currentQuestionIndex (st (playCurrentQuestion w)) = currentQuestionIndex (st w)"
  "generatedQuestions (st (playFeedback w)) = generatedQuestions (st w)"
  "currentQuestionIndex (st (playFeedback w)) = currentQuestionIndex (st w)"
  "generatedQuestions (st (requestFeedback w)) = generatedQuestions (st w)"
  "currentQuestionIndex (st (requestFeedback w)) = currentQuestionIndex (st w)"
  "generatedQuestions (st (feedback_set t w)) = generatedQuestions (st w)"
  "currentQuestionIndex (st (feedback_set t w)) = currentQuestionIndex (st w)"
  by (simp_all add: playCurrentQuestion_def playFeedback_def requestFeedback_def feedback_set_def Let_def)

lemma q_inv_play: "q_inv w \<Longrightarrow> q_inv (playCurrentQuestion w)"
  by (simp add: q_inv_def)

lemma q_inv_playFeedback: "q_inv w \<Longrightarrow> q_inv (playFeedback w)"
  by (simp add: q_inv_def)

lemma q_inv_handlers:
  "q_inv w \<Longrightarrow> q_inv (onCVSelected f w)"
  "q_inv w \<Longrightarrow> q_inv (startRecording w)"
  "q_inv w \<Longrightarrow> q_inv (stopRecording w)"
  "q_inv w \<Longrightarrow> q_inv (nextQuestion w)"
  "q_inv w \<Longrightarrow> q_inv (media_granted w)"
  "q_inv w \<Longrightarrow> q_inv (throw e w)"
  "q_inv w \<Longrightarrow> q_inv (recorder_stopped r sz w)"
  "q_inv w \<Longrightarrow> q_inv (analyze_done b v w)"
  "q_inv w \<Longrightarrow> q_inv (transcribed t w)"
  "q_inv w \<Longrightarrow> q_inv (settle w (feedback_fallback w))"
  by (auto simp: q_inv_def onCVSelected_def startRecording_def stopRecording_def nextQuestion_def
        media_granted_def recorder_stopped_def analyze_done_def Let_def transcribed_def
        feedback_fallback_def split: option.splits sum.splits)

lemma q_inv_on_ok: "q_inv w \<Longrightarrow> q_inv (on_ok key t v w)"
  by (cases t) (auto simp: q_inv_def summarize_ok_def questions_ok_def transcribe_ok_def feedback_ok_def
      transcribed_def feedback_fallback_def analyze_done_def Let_def truthy_js_or split: sum.splits)

lemma q_inv_on_fail: "q_inv w \<Longrightarrow> q_inv (on_fail t w)"
  by (cases t) (auto simp: q_inv_def summarize_err_def questions_err_def startRecording_def
      analyze_done_def transcribed_def feedback_fallback_def split: sum.splits)

lemma q_inv_audio: "q_inv w \<Longrightarrow> q_inv (audio_ended t w)"
  by (cases t) (simp_all add: q_inv_def startRecording_def)

lemma q_inv_stop_task: "q_inv w \<Longrightarrow> q_inv (stop_task sz t w)"
  by (cases t) (simp_all add: q_inv_handlers)

lemma q_inv_step: "q_inv w \<Longrightarrow> q_inv (front_step key w e)"
  by (rule front_step_preserves [where P = q_inv, OF q_inv_take q_inv_handlers(1) q_inv_play
        q_inv_handlers(2,3) q_inv_playFeedback q_inv_handlers(4) q_inv_on_ok q_inv_on_fail
        q_inv_handlers(5,6) q_inv_audio q_inv_stop_task])

lemma front_reach_q_inv: "front_reach key w \<Longrightarrow> q_inv w"
proof (induction rule: front_reach.induct)
  case init
  show ?case by (simp add: q_inv_def front_init_def rt_init_def)
next
  case (step w e)
  from step.IH show ?case by (rule q_inv_step)
qed

section \<open>The bound on the index\<close>

lemma idx_bound_nextQuestion: "idx_bound w \<Longrightarrow> idx_bound (nextQuestion w)"
  by (auto simp: idx_bound_def nextQuestion_def q_len_def Let_def split: option.splits)

lemma idx_bound_handlers:
  "idx_bound w \<Longrightarrow> idx_bound (onCVSelected f w)"
  "idx_bound w \<Longrightarrow> idx_bound (startRecording w)"
  "idx_bound w \<Longrightarrow> idx_bound (stopRecording w)"
  "idx_bound w \<Longrightarrow> idx_bound (media_granted w)"
  "idx_bound w \<Longrightarrow> idx_bound (throw e w)"
  "idx_bound w \<Longrightarrow> idx_bound (recorder_stopped r sz w)"
  "idx_bound w \<Longrightarrow> idx_bound (analyze_done b v w)"
  "idx_bound w \<Longrightarrow> idx_bound (transcribed t w)"
  "idx_bound w \<Longrightarrow> idx_bound (settle w (feedback_fallback w))"
  "idx_bound w \<Longrightarrow> idx_bound (playCurrentQuestion w)"
  "idx_bound w \<Longrightarrow> idx_bound (playFeedback w)"
  by (auto simp: idx_bound_def onCVSelected_def startRecording_def stopRecording_def
        media_granted_def recorder_stopped_def analyze_done_def Let_def transcribed_def
        feedback_fallback_def split: option.splits sum.splits)

lemma idx_bound_on_ok: "idx_bound w \<Longrightarrow> idx_bound (on_ok key t v w)"
  by (cases t) (auto simp: idx_bound_def summarize_ok_def questions_ok_def transcribe_ok_def feedback_ok_def
      transcribed_def feedback_fallback_def analyze_done_def Let_def split: sum.splits)

lemma idx_bound_on_fail: "idx_bound w \<Longrightarrow> idx_bound (on_fail t w)"
  by (cases t) (auto simp: idx_bound_def summarize_err_def questions_err_def startRecording_def
      analyze_done_def transcribed_def feedback_fallback_def split: sum.splits)

lemma idx_bound_step: "idx_bound w \<Longrightarrow> idx_bound (front_step key w e)"
proof (rule front_step_preserves [where P = idx_bound])
  show "idx_bound w'" if "idx_bound w" "take_task i w = Some (t, w')" for w i t w'
    using that take_task_fields [OF that(2)] by (simp add: idx_bound_def)
  show "idx_bound (audio_ended t w)" if "idx_bound w" for w t
    using that by (cases t) (simp_all add: idx_bound_def startRecording_def)
  show "idx_bound (stop_task sz t w)" if "idx_bound w" for w t sz
    using that by (cases t) (simp_all add: idx_bound_handlers)
qed (simp_all add: idx_bound_handlers idx_bound_nextQuestion idx_bound_on_ok idx_bound_on_fail)

lemma front_reach_idx_bound: "front_reach key w \<Longrightarrow> idx_bound w"
proof (induction rule: front_reach.induct)
  case init
  show ?case by (simp add: idx_bound_def front_init_def rt_init_def)
next
  case (step w e)
  from step.IH show ?case by (rule idx_bound_step)
qed

section \<open>Properties\<close>

text \<open>
  Claim C7.  In every reachable state the question index is non-negative and every
  property read \<open>this.generatedQuestions.k\<close> succeeds: the list is never null or
  undefined.
\<close>

theorem question_reads_never_throw:
  assumes "front_reach key w"
  shows "0 \<le> currentQuestionIndex (st w) \<and>
         (\<forall>k. js_get (generatedQuestions (st w)) k = Inr (js_prop (generatedQuestions (st w)) k))"
  using front_reach_q_inv [OF assms] by (simp add: q_inv_def truthy_js_get)

theorem question_reads_never_throw_witness:
  "js_get (generatedQuestions (st (front_run ''k'' front_init
      [SelectCv (Some ''cv.pdf''), HttpOk 0 (JObj [(''summary'', JStr ''s'')]), HttpFail 0]))) ''length''
   = Inr (JNum 1)"
proof -
  let ?w = "front_run ''k'' front_init
      [SelectCv (Some ''cv.pdf''), HttpOk 0 (JObj [(''summary'', JStr ''s'')]), HttpFail 0]"
  have "js_prop (generatedQuestions (st ?w)) ''length'' = JNum 1" by code_simp
  moreover have "js_get (generatedQuestions (st ?w)) ''length'' =
                 Inr (js_prop (generatedQuestions (st ?w)) ''length'')"
    using question_reads_never_throw [OF front_reach_run_init] by blast
  ultimately show ?thesis by (simp only:)
qed

lemma js_geq_JNum: "js_geq i (JNum n) \<longleftrightarrow> n \<le> i"
  by (simp add: js_geq_def)

text \<open>
  Claim C8.  On an array of questions and a non-negative index, \<open>playCurrentQuestion\<close>
  speaks the question at the index when the index is in range, and does nothing
  otherwise.
\<close>

theorem playCurrentQuestion_array:
  assumes gq: "generatedQuestions (st w) = JArr qs" and i: "0 \<le> currentQuestionIndex (st w)"
    and len: "length qs \<le> 4294967295"
  shows "playCurrentQuestion w =
    (if nat (currentQuestionIndex (st w)) < length qs
     then post (tts_req (js_to_string (qs ! nat (currentQuestionIndex (st w))))) TQuestionTts
            (update_st (\<lambda>s. s\<lparr>currentQuestion := qs ! nat (currentQuestionIndex (st w)),
                                questionPlaying := True\<rparr>) w)
     else w)"
proof -
  let ?i = "currentQuestionIndex (st w)"
  have "js_geq ?i (js_prop (JArr qs) ''length'') \<longleftrightarrow> \<not> nat ?i < length qs"
    using i by (auto simp: js_prop_JArr_length js_geq_JNum)
  moreover have "nat ?i < length qs \<Longrightarrow> js_prop (JArr qs) (int_str ?i) = qs ! nat ?i"
    using i len by (simp add: int_str_nonneg js_prop_JArr_nth)
  ultimately show ?thesis
    using gq by (auto simp: playCurrentQuestion_def Let_def)
qed

text \<open>
  Claim C9.  On an array of questions, \<open>nextQuestion\<close> advances to the next question and
  plays it while one is left, and otherwise finishes the interview; for the empty
  array \<open>length - 1\<close> is \<open>-1\<close> and the interview finishes at once.
\<close>

theorem nextQuestion_array:
  assumes gq: "generatedQuestions (st w) = JArr qs" and i: "0 \<le> currentQuestionIndex (st w)"
    and len: "length qs \<le> 4294967295"
  shows "nextQuestion w =
    (if currentQuestionIndex (st w) + 1 < int (length qs)
     then playCurrentQuestion (update_st (\<lambda>s. s\<lparr>currentQuestionIndex := currentQuestionIndex (st w) + 1,
            currentQuestion := qs ! nat (currentQuestionIndex (st w) + 1), facialResult := JNull,
            transcriptionResult := JStr [], feedbackText := JNull\<rparr>) w)
     else update_st (\<lambda>s. s\<lparr>interviewFinished := True\<rparr>) w)"
proof -
  let ?i = "currentQuestionIndex (st w)"
  have "?i + 1 < int (length qs) \<Longrightarrow> js_prop (JArr qs) (int_str (?i + 1)) = qs ! nat (?i + 1)"
    using i len by (simp add: int_str_nonneg js_prop_JArr_nth nat_add_distrib)
  then show ?thesis
    using gq by (auto simp: nextQuestion_def Let_def js_prop_JArr_length)
qed

theorem playCurrentQuestion_array_witness:
  "playCurrentQuestion (update_st (\<lambda>s. s\<lparr>generatedQuestions := JArr [JStr ''Q1'', JStr ''Q2''],
      currentQuestionIndex := 1\<rparr>) front_init)
   = post (tts_req ''Q2'') TQuestionTts
       (update_st (\<lambda>s. s\<lparr>currentQuestion := JStr ''Q2'', questionPlaying := True\<rparr>)
         (update_st (\<lambda>s. s\<lparr>generatedQuestions := JArr [JStr ''Q1'', JStr ''Q2''],
            currentQuestionIndex := 1\<rparr>) front_init))"
  by (subst playCurrentQuestion_array [where qs = "[JStr ''Q1'', JStr ''Q2'']"]) simp_all

theorem nextQuestion_array_witness:
  "interviewFinished (st (nextQuestion (update_st (\<lambda>s. s\<lparr>generatedQuestions := JArr []\<rparr>) front_init)))"
  by (subst nextQuestion_array [where qs = "[]"]) (simp_all add: front_init_def rt_init_def)

text \<open>
  Claim C10.  When \<open>/generate_questions\<close> answers an object whose \<open>questions\<close> is an
  array, the questions are stored, the index is reset to 0, the spinner stops, and
  the first question, if there is one, is sent to text-to-speech.
\<close>

theorem questions_ok_array:
  assumes res: "js_get res ''questions'' = Inr (JArr qs)" and len: "length qs \<le> 4294967295"
  shows "\<exists>w'. questions_ok res w = Inr w' \<and> generatedQuestions (st w') = JArr qs
            \<and> currentQuestionIndex (st w') = 0 \<and> \<not> cvUploading (st w') \<and> \<not> interviewFinished (st w')
            \<and> (qs \<noteq> [] \<longrightarrow> currentQuestion (st w') = hd qs \<and> questionPlaying (st w')
                            \<and> sent w' = sent w @ [tts_req (js_to_string (hd qs))])
            \<and> (qs = [] \<longrightarrow> currentQuestion (st w') = JUndefined \<and> sent w' = sent w)"
proof (cases qs)
  case Nil
  then show ?thesis
    using res by (simp add: questions_ok_def Let_def js_or_def js_less_def js_prop_def nat_str_zero)
next
  case (Cons q rest)
  let ?w1 = "update_st (\<lambda>s. s\<lparr>generatedQuestions := JArr qs, currentQuestionIndex := 0,
                 currentQuestion := q, cvUploading := False, interviewFinished := False\<rparr>) w"
  have q0: "js_prop (JArr qs) ''0'' = q"
    using Cons len js_prop_JArr_nth [of 0 qs] by (simp add: nat_str_zero)
  have "playCurrentQuestion ?w1 =
        post (tts_req (js_to_string q)) TQuestionTts
          (update_st (\<lambda>s. s\<lparr>currentQuestion := q, questionPlaying := True\<rparr>) ?w1)"
    using playCurrentQuestion_array [of ?w1 qs] Cons len by simp
  then show ?thesis
    using res Cons q0 by (simp add: questions_ok_def Let_def js_or_def js_less_def js_prop_JArr_length)
qed

theorem questions_ok_array_witness:
  "\<exists>w'. questions_ok (JObj [(''questions'', JArr [JStr ''Q1''])]) front_init = Inr w'
      \<and> sent w' = [tts_req ''Q1'']"
  using questions_ok_array [of "JObj [(''questions'', JArr [JStr ''Q1''])]" "[JStr ''Q1'']" front_init]
  by (auto simp: front_init_def rt_init_def)

text \<open>
  Claim C11.  When question generation fails after an earlier interview moved the
  index past 0, the error branch replaces the questions by a one-element list but
  keeps the index and the current question: the index is out of range, the error
  entry is never played, and the next \<open>nextQuestion\<close> finishes the interview.
\<close>

theorem questions_error_stale_index:
  assumes "i < length (tasks w)" and "tasks w ! i = TQuestions" and "1 \<le> currentQuestionIndex (st w)"
  shows "generatedQuestions (st (front_step key w (HttpFail i))) = JArr [JStr ''Error generating questions''] \<and>
         currentQuestionIndex (st (front_step key w (HttpFail i))) = currentQuestionIndex (st w) \<and>
         currentQuestion (st (front_step key w (HttpFail i))) = currentQuestion (st w) \<and>
         playCurrentQuestion (front_step key w (HttpFail i)) = front_step key w (HttpFail i) \<and>
         interviewFinished (st (nextQuestion (front_step key w (HttpFail i))))"
proof -
  let ?w' = "front_step key w (HttpFail i)"
  have w': "generatedQuestions (st ?w') = JArr [JStr ''Error generating questions'']"
    "currentQuestionIndex (st ?w') = currentQuestionIndex (st w)"
    "currentQuestion (st ?w') = currentQuestion (st w)"
    using assms by (simp_all add: complete_def take_task_def questions_err_def)
  have "playCurrentQuestion ?w' = ?w'"
    using playCurrentQuestion_array [OF w'(1)] w'(2) assms(3) by simp
  moreover have "interviewFinished (st (nextQuestion ?w'))"
    using nextQuestion_array [OF w'(1)] w'(2) assms(3) by simp
  ultimately show ?thesis using w' by simp
qed

theorem questions_error_stale_index_witness:
  "currentQuestion (st (front_step ''k'' (front_run ''k'' front_init
      [SelectCv (Some ''cv.pdf''), HttpOk 0 (JObj [(''summary'', JStr ''s'')]),
       HttpOk 0 (JObj [(''questions'', JArr [JStr ''Q1'', JStr ''Q2''])]), NextQuestion,
       SelectCv (Some ''cv2.pdf''), HttpOk 2 (JObj [(''summary'', JStr ''t'')])]) (HttpFail 2)))
   = JStr ''Q2''"
proof -
  let ?w = "front_run ''k'' front_init
      [SelectCv (Some ''cv.pdf''), HttpOk 0 (JObj [(''summary'', JStr ''s'')]),
       HttpOk 0 (JObj [(''questions'', JArr [JStr ''Q1'', JStr ''Q2''])]), NextQuestion,
       SelectCv (Some ''cv2.pdf''), HttpOk 2 (JObj [(''summary'', JStr ''t'')])]"
  have a: "2 < length (tasks ?w)" by code_simp
  have b: "tasks ?w ! 2 = TQuestions" by code_simp
  have c: "1 \<le> currentQuestionIndex (st ?w)" by code_simp
  have d: "currentQuestion (st ?w) = JStr ''Q2''" by code_simp
  show ?thesis using questions_error_stale_index [OF a b c, of "''k''"] d by simp
qed

text \<open>
  Claim C25.  In every reachable state the question index lies between 0 and the
  last position of the question list (0 for an empty list), unless the last question
  generation failed: the error branch replaces the list by a one-element list and
  keeps the index.
\<close>

theorem question_index_bound:
  assumes "front_reach key w"
  shows "0 \<le> currentQuestionIndex (st w) \<and>
         (generatedQuestions (st w) = JArr [JStr ''Error generating questions''] \<or>
          currentQuestionIndex (st w) \<le> max 0 (q_len (generatedQuestions (st w)) - 1))"
  using front_reach_q_inv [OF assms] front_reach_idx_bound [OF assms] by (simp add: q_inv_def idx_bound_def)

theorem question_index_bound_witness:
  "currentQuestionIndex (st (front_run ''k'' front_init
      [SelectCv (Some ''cv.pdf''), HttpOk 0 (JObj [(''summary'', JStr ''s'')]),
       HttpOk 0 (JObj [(''questions'', JArr [JStr ''Q1'', JStr ''Q2''])]), NextQuestion, NextQuestion, NextQuestion]))
   \<le> 1"
proof -
  let ?w = "front_run ''k'' front_init
      [SelectCv (Some ''cv.pdf''), HttpOk 0 (JObj [(''summary'', JStr ''s'')]),
       HttpOk 0 (JObj [(''questions'', JArr [JStr ''Q1'', JStr ''Q2''])]), NextQuestion, NextQuestion, NextQuestion]"
  have gq: "generatedQuestions (st ?w) = JArr [JStr ''Q1'', JStr ''Q2'']" by code_simp
  have ql: "q_len (JArr [JStr ''Q1'', JStr ''Q2'']) = 2" by code_simp
  have "generatedQuestions (st ?w) = JArr [JStr ''Error generating questions''] \<or>
        currentQuestionIndex (st ?w) \<le> max 0 (q_len (generatedQuestions (st ?w)) - 1)"
    using question_index_bound [OF front_reach_run_init] by blast
  with gq ql show ?thesis by simp
qed

text \<open>
  Claim C26.  When the service answers \<open>questions\<close> as one string instead of an
  array, the component reads the string as the list: it speaks the first character
  as the first question (and \<open>nextQuestion\<close> walks through the characters).
\<close>

theorem questions_string_spelled:
  assumes "js_get res ''questions'' = Inr (JStr (c # cs))" and "length cs < 4294967295"
  shows "\<exists>w'. questions_ok res w = Inr w' \<and> currentQuestion (st w') = JStr [c] \<and>
              sent w' = sent w @ [tts_req [c]]"
proof -
  have d: "is_digit_char CHR ''0''" "digit_val CHR ''0'' = 0" by code_simp+
  have p0: "js_prop (JStr (c # cs)) ''0'' = JStr [c]"
    by (simp add: js_prop_def is_index_key_def nat_str_zero parse_nat_def d)
  have l: "js_prop (JStr (c # cs)) ''length'' = JNum (int (Suc (length cs)))"
    by (simp add: js_prop_def)
  show ?thesis
    using assms(1) p0 l
    by (simp add: questions_ok_def playCurrentQuestion_def Let_def js_or_def js_less_def js_geq_def
        int_str_nonneg nat_str_zero)
qed

theorem questions_string_spelled_witness:
  "\<exists>w'. questions_ok (JObj [(''questions'', JStr ''Tell me about yourself'')]) front_init = Inr w' \<and>
        sent w' = [tts_req ''T'']"
  using questions_string_spelled [of "JObj [(''questions'', JStr ''Tell me about yourself'')]" "CHR ''T''"
      "''ell me about yourself''" front_init]
  by (simp add: front_init_def rt_init_def) blast

end

