(* ===== verification/Pipeline.thy ===== *)
theory Pipeline
  imports Questions
begin

text \<open>
  The answer pipeline of \<open>FrontComponent\<close>: \<open>stopRecording\<close>, the recorder's
  \<open>onstop\<close> upload to \<open>/analyze_video\<close>, the transcription of the same blob, the
  request to \<open>/generate_feedback\<close> and the spoken feedback; and what happens when a
  response body is \<open>null\<close> or a field has an unexpected type.  Every stage appends
  one task to the queue and the completed one leaves it, so when the queue held \<open>ts\<close>
  before \<open>stopRecording\<close>, each stage's task is at index \<open>length ts\<close>.
\<close>

section \<open>Speech synthesis in the browser\<close>

text \<open>
  \<open>playFeedbackWithWebSpeech\<close> is private and its only call is commented out, so no
  event reaches it; it is kept for completeness.  \<open>synth\<close> says whether
  \<open>window.speechSynthesis\<close> exists, \<open>speaks\<close> whether creating and speaking the
  utterance raises nothing; its \<open>onend\<close> handler is the task \<open>TFeedbackAudio\<close>,
  whose completion clears \<open>feedbackPlaying\<close>.
\<close>

definition playFeedbackWithWebSpeech :: "bool \<Rightarrow> bool \<Rightarrow> string \<Rightarrow> fw \<Rightarrow> fw" where
  "playFeedbackWithWebSpeech synth speaks text w =
     (if \<not> synth then w
      else if speaks then update_st (\<lambda>s. s\<lparr>feedbackPlaying := True\<rparr>) (schedule TFeedbackAudio w)
      else update_st (\<lambda>s. s\<lparr>feedbackPlaying := False\<rparr>) w)"

section \<open>The CV spinner\<close>

text \<open>
  The spinner of the CV upload is on and no callback that could turn it off is
  pending.
\<close>

definition spinner_orphaned :: "fw \<Rightarrow> bool" where
  "spinner_orphaned w \<longleftrightarrow> cvUploading (st w) \<and> TSummarize \<notin> set (tasks w) \<and> TQuestions \<notin> set (tasks w)"

section \<open>Stages\<close>

lemma feedback_set_truthy:
  "truthy t \<Longrightarrow> feedback_set t w =
     post (tts_req (js_to_string t)) TFeedbackTts
       (update_st (\<lambda>s. s\<lparr>feedbackText := t, feedbackLoading := False, feedbackPlaying := True\<rparr>) w)"
  by (simp add: feedback_set_def playFeedback_def update_st_def)

lemma feedback_fallback_string:
  assumes "\<not> truthy (transcriptionResult (st w)) \<or> js_typeof (transcriptionResult (st w)) = ''string''"
  shows "\<exists>msg. msg \<noteq> [] \<and> feedback_fallback w = Inr (feedback_set (JStr msg) w)"
proof (cases "clientSideFeedbackFallback (facialResult (st w)) (transcriptionResult (st w))")
  case (Inl e)
  then show ?thesis using assms fallback_throws_iff by blast
next
  case (Inr msg)
  then show ?thesis using fallback_nonempty by (auto simp: feedback_fallback_def)
qed

lemma feedback_fallback_throws:
  "truthy (transcriptionResult (st w)) \<Longrightarrow> js_typeof (transcriptionResult (st w)) \<noteq> ''string'' \<Longrightarrow>
   feedback_fallback w = Inl TypeError"
  by (cases "transcriptionResult (st w)") (simp_all add: feedback_fallback_def clientSideFeedbackFallback_def js_or_def)

text \<open>
  When the transcription is a string or falsy, both callbacks of \<open>/generate_feedback\<close>
  end with a truthy \<open>feedbackText\<close> (the server's, or the client-side fallback), the
  spinner off, and the text sent to text-to-speech.
\<close>

lemma feedback_callbacks:
  assumes "\<not> truthy (transcriptionResult (st w)) \<or> js_typeof (transcriptionResult (st w)) = ''string''"
  shows "\<exists>t. truthy t \<and> on_ok key TFeedback v w = feedback_set t w"
    and "\<exists>t. truthy t \<and> on_fail TFeedback w = feedback_set t w"
proof -
  obtain m where m: "m \<noteq> []" "feedback_fallback w = Inr (feedback_set (JStr m) w)"
    using feedback_fallback_string [OF assms] by blast
  then have tm: "truthy (JStr m)" by simp
  let ?fb = "if v = JNull \<or> v = JUndefined then JUndefined else js_prop v ''feedback''"
  have ok: "on_ok key TFeedback v w = feedback_set (if truthy ?fb then ?fb else JStr m) w"
    using m(2) by (simp add: feedback_ok_def Let_def)
  show "\<exists>t. truthy t \<and> on_ok key TFeedback v w = feedback_set t w"
  proof (cases "truthy ?fb")
    case True
    then show ?thesis using ok by (intro exI [of _ ?fb]) simp
  next
    case False
    then show ?thesis using ok tm by (intro exI [of _ "JStr m"]) simp
  qed
  show "\<exists>t. truthy t \<and> on_fail TFeedback w = feedback_set t w"
    using m(2) tm by (intro exI [of _ "JStr m"]) simp
qed

lemma js_or_string:
  "\<not> truthy v \<or> js_typeof v = ''string'' \<Longrightarrow> \<exists>s. js_or v (JStr []) = JStr s"
  by (cases v) (simp_all add: js_or_def)

lemma stopRecording_held:
  assumes "mediaRecorder (st w) = Some r" "r \<in> set (recorders (st w))"
  shows "tasks (stopRecording w) = tasks w @ [TRecorderStop r] \<and> sent (stopRecording w) = sent w \<and>
         thrown (stopRecording w) = thrown w \<and> recordedChunks (st (stopRecording w)) = recordedChunks (st w) \<and>
         \<not> recording (st (stopRecording w))"
  using assms by (simp add: stopRecording_def)

lemma spinner_orphaned_take:
  "spinner_orphaned w \<Longrightarrow> take_task i w = Some (t, w') \<Longrightarrow>
   spinner_orphaned w' \<and> t \<noteq> TSummarize \<and> t \<noteq> TQuestions"
proof -
  assume inv: "spinner_orphaned w" and tk: "take_task i w = Some (t, w')"
  then have "t \<in> set (tasks w)" by (auto simp: take_task_Some)
  then show ?thesis
    using inv take_task_set [OF tk] take_task_fields [OF tk] by (auto simp: spinner_orphaned_def)
qed

lemma spinner_orphaned_handlers:
  assumes "spinner_orphaned w"
  shows "spinner_orphaned (playCurrentQuestion w)" "spinner_orphaned (startRecording w)"
    "spinner_orphaned (stopRecording w)" "spinner_orphaned (playFeedback w)"
    "spinner_orphaned (nextQuestion w)" "spinner_orphaned (media_granted w)"
    "spinner_orphaned (throw e w)" "spinner_orphaned (stop_task sz t w)"
    "spinner_orphaned (requestFeedback w)" "spinner_orphaned (feedback_set v w)"
proof -
  have pl: "spinner_orphaned (playCurrentQuestion w)" if "spinner_orphaned w" for w
    using that by (simp add: spinner_orphaned_def playCurrentQuestion_def Let_def)
  show "spinner_orphaned (playCurrentQuestion w)" using assms by (rule pl)
  show "spinner_orphaned (nextQuestion w)"
    using assms pl by (simp add: nextQuestion_def Let_def spinner_orphaned_def)
  show "spinner_orphaned (startRecording w)" "spinner_orphaned (throw e w)"
    "spinner_orphaned (media_granted w)" "spinner_orphaned (requestFeedback w)"
    using assms by (simp_all add: spinner_orphaned_def startRecording_def media_granted_def
      requestFeedback_def Let_def)
  show "spinner_orphaned (stopRecording w)"
    using assms by (simp add: spinner_orphaned_def stopRecording_def split: option.split)
  show "spinner_orphaned (playFeedback w)" "spinner_orphaned (feedback_set v w)"
    using assms by (simp_all add: spinner_orphaned_def playFeedback_def feedback_set_def Let_def)
  show "spinner_orphaned (stop_task sz t w)"
    using assms by (cases t) (simp_all add: spinner_orphaned_def recorder_stopped_def Let_def)
qed

lemma spinner_orphaned_settle:
  "spinner_orphaned w \<Longrightarrow> (\<And>w'. r = Inr w' \<Longrightarrow> spinner_orphaned w') \<Longrightarrow> spinner_orphaned (settle w r)"
  by (cases r) (simp_all add: spinner_orphaned_def)

lemma spinner_orphaned_callbacks:
  assumes inv: "spinner_orphaned w" and t: "t \<noteq> TSummarize" "t \<noteq> TQuestions"
  shows "spinner_orphaned (on_ok key t v w)" "spinner_orphaned (on_fail t w)"
    "spinner_orphaned (audio_ended t w)"
proof -
  note h = spinner_orphaned_handlers [OF inv]
  have fb: "spinner_orphaned (settle w (feedback_fallback w))"
    by (rule spinner_orphaned_settle [OF inv]) (auto simp: feedback_fallback_def h split: sum.splits)
  have tr: "spinner_orphaned (transcribed x w)" for x
    using inv by (simp add: transcribed_def spinner_orphaned_def requestFeedback_def Let_def)
  have ad: "spinner_orphaned (analyze_done b x w)" for b x
    using inv by (simp add: analyze_done_def spinner_orphaned_def)
  have fo: "spinner_orphaned (settle w (feedback_ok v w))"
  proof (cases "truthy (if v = JNull \<or> v = JUndefined then JUndefined else js_prop v ''feedback'')")
    case True
    then show ?thesis by (simp add: feedback_ok_def h)
  next
    case False
    then show ?thesis using fb by (simp add: feedback_ok_def)
  qed
  have to: "spinner_orphaned (settle w (transcribe_ok v w))"
    by (rule spinner_orphaned_settle [OF inv]) (auto simp: transcribe_ok_def tr split: sum.splits)
  have sr: "spinner_orphaned (startRecording (update_st (\<lambda>s. s\<lparr>questionPlaying := x\<rparr>) w))" for x
    using inv by (simp add: spinner_orphaned_def startRecording_def)
  have up: "spinner_orphaned (update_st (\<lambda>s. s\<lparr>feedbackPlaying := x\<rparr>) w)" for x
    using inv by (simp add: spinner_orphaned_def)
  have sc: "spinner_orphaned (schedule t' w)" if "t' \<noteq> TSummarize" "t' \<noteq> TQuestions" for t'
    using inv that by (simp add: spinner_orphaned_def)
  show "spinner_orphaned (on_ok key t v w)"
    using t inv by (cases t) (simp_all add: fo to ad sc h)
  show "spinner_orphaned (on_fail t w)"
    using t inv by (cases t) (simp_all add: fb tr ad sr up)
  show "spinner_orphaned (audio_ended t w)"
    using inv by (cases t) (simp_all add: sr up)
qed

lemma spinner_orphaned_step:
  "spinner_orphaned w \<Longrightarrow> (\<forall>f. e \<noteq> SelectCv f) \<Longrightarrow> spinner_orphaned (front_step key w e)"
  by (rule front_step_preserves_tasks [where Q = "\<lambda>t w. spinner_orphaned w \<and> t \<noteq> TSummarize \<and> t \<noteq> TQuestions"])
     (auto dest: spinner_orphaned_take intro: spinner_orphaned_handlers spinner_orphaned_callbacks)

lemma spinner_orphaned_run:
  "spinner_orphaned w \<Longrightarrow> \<forall>e\<in>set es. \<forall>f. e \<noteq> SelectCv f \<Longrightarrow> spinner_orphaned (front_run key w es)"
  by (induction es arbitrary: w) (simp_all add: spinner_orphaned_step)

section \<open>Properties\<close>

text \<open>
  Claim C12.  From a state where \<open>this.mediaRecorder\<close> records, the answer pipeline
  runs to the end whatever the analysis and feedback services answer, as long as the
  transcription is a string or falsy: stopping the recording, the recorder's stop
  task, the \<open>/analyze_video\<close> callback, the \<open>/transcribe_audio\<close> callback and the
  \<open>/generate_feedback\<close> callback send exactly four requests, the answer's blob to
  both uploads, the stored transcription and facial result to the feedback service,
  and the feedback text, which is truthy, to text-to-speech; the facial result is
  the analysis service's answer, or the error text when it failed; nothing is thrown
  and the queue gains only the text-to-speech callback.
\<close>

theorem answer_pipeline:
  fixes key :: string and sz :: nat
  assumes rec: "mediaRecorder (st w) = Some r" "r \<in> set (recorders (st w))"
    and ana: "ea = HttpOk (length (tasks w)) va \<or> ea = HttpFail (length (tasks w))"
    and tr: "et = HttpFail (length (tasks w)) \<or>
             (et = HttpOk (length (tasks w)) vt \<and> js_get vt ''transcription'' = Inr tv \<and>
              (\<not> truthy tv \<or> js_typeof tv = ''string''))"
    and fb: "ef = HttpOk (length (tasks w)) vf \<or> ef = HttpFail (length (tasks w))"
  defines "b \<equiv> recordedChunks (st w) @ (if 0 < sz then [(r, sz)] else [])"
    and "w' \<equiv> front_run key w [StopRecording, RecorderDone (length (tasks w)) sz, ea, et, ef]"
  shows "tasks w' = tasks w @ [TFeedbackTts] \<and> thrown w' = thrown w \<and>
         sent w' = sent w @ [analyze_req b, transcribe_req b,
                             feedback_req (js_to_string (transcriptionResult (st w'))) (facial_field (facialResult (st w'))),
                             tts_req (js_to_string (feedbackText (st w')))] \<and>
         facialResult (st w') = (if ea = HttpFail (length (tasks w)) then JStr ''Error analyzing video'' else va) \<and>
         truthy (feedbackText (st w')) \<and> \<not> feedbackLoading (st w') \<and> feedbackPlaying (st w') \<and>
         \<not> recording (st w')"
proof -
  let ?n = "length (tasks w)"
  define w1 where "w1 = stopRecording w"
  have w1: "tasks w1 = tasks w @ [TRecorderStop r]" "sent w1 = sent w" "thrown w1 = thrown w"
    "recordedChunks (st w1) = recordedChunks (st w)" "\<not> recording (st w1)"
    using stopRecording_held [OF rec] by (simp_all add: w1_def)
  define w2 where "w2 = front_step key w1 (RecorderDone ?n sz)"
  have w2: "tasks w2 = tasks w @ [TAnalyze b]" "sent w2 = sent w @ [analyze_req b]" "thrown w2 = thrown w"
    "\<not> recording (st w2)"
    using complete_last [OF w1(1), of is_stop "stop_task sz"] w1
    by (simp_all add: w2_def recorder_stopped_def Let_def b_def)
  define w3 where "w3 = front_step key w2 ea"
  define fv where "fv = (if ea = HttpFail ?n then JStr ''Error analyzing video'' else va)"
  have "w3 = analyze_done b fv (w2\<lparr>tasks := tasks w\<rparr>)"
    using ana complete_last [OF w2(1)] by (auto simp: w3_def fv_def)
  then have w3: "tasks w3 = tasks w @ [TTranscribe]" "sent w3 = sent w2 @ [transcribe_req b]"
    "thrown w3 = thrown w" "\<not> recording (st w3)" "facialResult (st w3) = fv"
    using w2 by (simp_all add: analyze_done_def)
  define w4 where "w4 = front_step key w3 et"
  obtain s where "w4 = transcribed (JStr s) (w3\<lparr>tasks := tasks w\<rparr>)"
  proof (cases "et = HttpFail ?n")
    case True
    then show ?thesis using that complete_last [OF w3(1)] by (simp add: w4_def)
  next
    case False
    then have et: "et = HttpOk ?n vt" "js_get vt ''transcription'' = Inr tv"
      and "\<not> truthy tv \<or> js_typeof tv = ''string''" using tr by auto
    then obtain s' where "js_or tv (JStr []) = JStr s'" using js_or_string by blast
    then show ?thesis using that et complete_last [OF w3(1)] by (simp add: w4_def transcribe_ok_def)
  qed
  then have w4: "tasks w4 = tasks w @ [TFeedback]"
    "sent w4 = sent w3 @ [feedback_req (js_to_string (transcriptionResult (st w4))) (facial_field (facialResult (st w4)))]"
    "thrown w4 = thrown w" "\<not> recording (st w4)" "transcriptionResult (st w4) = JStr s"
    "facialResult (st w4) = fv"
    using w3 by (simp_all add: transcribed_def requestFeedback_def Let_def js_or_def)
  have str: "\<not> truthy (transcriptionResult (st (w4\<lparr>tasks := tasks w\<rparr>))) \<or>
             js_typeof (transcriptionResult (st (w4\<lparr>tasks := tasks w\<rparr>))) = ''string''"
    using w4(5) by simp
  obtain t where t: "truthy t" "front_step key w4 ef = feedback_set t (w4\<lparr>tasks := tasks w\<rparr>)"
  proof (cases "ef = HttpFail ?n")
    case True
    then show ?thesis using that complete_last [OF w4(1)] feedback_callbacks(2) [OF str] by auto
  next
    case False
    then have "ef = HttpOk ?n vf" using fb by blast
    then show ?thesis using that complete_last [OF w4(1)] feedback_callbacks(1) [OF str, of key vf] by auto
  qed
  have run: "w' = front_step key w4 ef" by (simp add: w'_def w4_def w3_def w2_def w1_def)
  show ?thesis
    using t w4 w3 w2 unfolding run by (simp add: feedback_set_truthy fv_def)
qed

theorem answer_pipeline_witness:
  "truthy (feedbackText (st (front_run ''k'' (front_run ''k'' front_init [StartRecording, MediaOk 0])
      [StopRecording, RecorderDone 0 7, HttpOk 0 (JObj []),
       HttpOk 0 (JObj [(''transcription'', JStr ''hello'')]), HttpFail 0])))"
proof -
  let ?w = "front_run ''k'' front_init [StartRecording, MediaOk 0]"
  have r: "mediaRecorder (st ?w) = Some 0" by code_simp
  have r2: "0 \<in> set (recorders (st ?w))" by code_simp
  have l: "length (tasks ?w) = 0" by code_simp
  show ?thesis
    using answer_pipeline [where ea = "HttpOk 0 (JObj [])" and va = "JObj []"
        and et = "HttpOk 0 (JObj [(''transcription'', JStr ''hello'')])"
        and vt = "JObj [(''transcription'', JStr ''hello'')]" and tv = "JStr ''hello''"
        and ef = "HttpFail 0" and key = "''k''" and sz = 7, OF r r2] l
    by simp
qed

text \<open>
  Claim C13.  A \<open>null\<close> or absent response body (an empty 200 answer, which
  \<open>HttpClient\<close> delivers as \<open>null\<close>) makes the \<open>next\<close> callbacks of
  \<open>/summarize_cv\<close>, \<open>/generate_questions\<close> and \<open>/transcribe_audio\<close> throw a
  \<open>TypeError\<close> before they change anything: no question request, no spinner reset,
  no feedback request.
\<close>

theorem null_body_throws:
  assumes "res = JNull \<or> res = JUndefined"
  shows "on_ok key TSummarize res w = throw TypeError w \<and> on_ok key TQuestions res w = throw TypeError w \<and>
         on_ok key TTranscribe res w = throw TypeError w"
  using assms by (auto simp: summarize_ok_def questions_ok_def transcribe_ok_def)

theorem null_body_throws_witness:
  "on_ok ''k'' TTranscribe JNull front_init = throw TypeError front_init"
  using null_body_throws [of JNull "''k''" front_init] by simp

text \<open>
  Claim C14.  Once the CV spinner is on with neither the \<open>/summarize_cv\<close> nor the
  \<open>/generate_questions\<close> callback pending (a \<open>null\<close> summary response leads there),
  it stays on whatever happens next, until the user selects another file.
\<close>

theorem cv_spinner_stuck:
  assumes "cvUploading (st w)" "TSummarize \<notin> set (tasks w)" "TQuestions \<notin> set (tasks w)"
    and "\<forall>e\<in>set es. \<forall>f. e \<noteq> SelectCv f"
  shows "cvUploading (st (front_run key w es))"
  using spinner_orphaned_run [of w es key] assms by (simp add: spinner_orphaned_def)

theorem cv_spinner_stuck_witness:
  "cvUploading (st (front_run ''k'' (front_run ''k'' front_init [SelectCv (Some ''cv.pdf''), HttpOk 0 JNull])
      [StartRecording, MediaOk 0, StopRecording, RecorderDone 0 5, HttpFail 0, HttpFail 0, HttpFail 0]))"
proof -
  let ?w = "front_run ''k'' front_init [SelectCv (Some ''cv.pdf''), HttpOk 0 JNull]"
  have a: "cvUploading (st ?w)" by code_simp
  have b: "TSummarize \<notin> set (tasks ?w)" by code_simp
  have c: "TQuestions \<notin> set (tasks ?w)" by code_simp
  show ?thesis
    using cv_spinner_stuck [OF a b c, of "[StartRecording, MediaOk 0, StopRecording, RecorderDone 0 5,
      HttpFail 0, HttpFail 0, HttpFail 0]" "''k''"] by simp
qed

text \<open>
  Claim C15.  When the transcription is truthy but not a string (the service answered
  \<open>{transcription: {...}}\<close>) and the feedback service gives no \<open>feedback\<close>, both
  callbacks of \<open>/generate_feedback\<close> throw in \<open>clientSideFeedbackFallback\<close>
  before \<open>feedbackLoading\<close> is reset: the feedback spinner set by
  \<open>requestFeedback\<close> stays on.
\<close>

theorem feedback_spinner_stuck:
  assumes "truthy (transcriptionResult (st w))" "js_typeof (transcriptionResult (st w)) \<noteq> ''string''"
    and "\<not> truthy (js_prop res ''feedback'')"
  shows "on_ok key TFeedback res w = throw TypeError w \<and> on_fail TFeedback w = throw TypeError w"
proof -
  have "\<not> truthy (if res = JNull \<or> res = JUndefined then JUndefined else js_prop res ''feedback'')"
    using assms(3) by simp
  then show ?thesis
    using feedback_fallback_throws [OF assms(1,2)] by (simp add: feedback_ok_def)
qed

theorem feedback_spinner_stuck_witness:
  "on_fail TFeedback (update_st (\<lambda>s. s\<lparr>transcriptionResult := JObj [(''text'', JStr ''hi'')],
      feedbackLoading := True\<rparr>) front_init)
   = throw TypeError (update_st (\<lambda>s. s\<lparr>transcriptionResult := JObj [(''text'', JStr ''hi'')],
      feedbackLoading := True\<rparr>) front_init)"
  using feedback_spinner_stuck [of "update_st (\<lambda>s. s\<lparr>transcriptionResult := JObj [(''text'', JStr ''hi'')],
      feedbackLoading := True\<rparr>) front_init" JNull "''k''"]
  by (simp add: js_prop_def)

text \<open>
  Claim C16.  Two answers can be in the pipeline at once (the user moves on and
  answers the next question before the first analysis returns).  The fields
  \<open>facialResult\<close> and \<open>transcriptionResult\<close> are shared by both chains: whenever
  both analyses return before the transcriptions, the second analysis overwrites
  the first, and both feedback requests, the first answer's included, carry the
  second answer's facial result, whatever the two transcriptions are.
\<close>

theorem feedback_mixes_answers:
  fixes key sa sb :: string and fa fb :: jsval
  assumes "tasks w = TAnalyze b1 # TAnalyze b2 # ts"
  defines "w' \<equiv> front_run key w
     [HttpOk 0 fa, HttpOk 0 fb, HttpOk (length ts) (JObj [(''transcription'', JStr sa)]),
      HttpOk (length ts) (JObj [(''transcription'', JStr sb)])]"
  shows "sent w' = sent w @ [transcribe_req b1, transcribe_req b2,
                             feedback_req sa (facial_field fb), feedback_req sb (facial_field fb)] \<and>
         tasks w' = ts @ [TFeedback, TFeedback] \<and> facialResult (st w') = fb \<and> thrown w' = thrown w"
proof -
  have js: "js_or (JStr s) (JStr []) = JStr s" for s by (simp add: js_or_def)
  define w1 where "w1 = front_step key w (HttpOk 0 fa)"
  have w1: "tasks w1 = TAnalyze b2 # ts @ [TTranscribe]" "sent w1 = sent w @ [transcribe_req b1]"
    "thrown w1 = thrown w"
    using assms(1) complete_at [of w "[]" "TAnalyze b1"] by (simp_all add: w1_def analyze_done_def)
  define w2 where "w2 = front_step key w1 (HttpOk 0 fb)"
  have w2: "tasks w2 = ts @ TTranscribe # [TTranscribe]" "sent w2 = sent w1 @ [transcribe_req b2]"
    "facialResult (st w2) = fb" "thrown w2 = thrown w"
    using w1 complete_at [of w1 "[]" "TAnalyze b2"] by (simp_all add: w2_def analyze_done_def)
  define w3 where "w3 = front_step key w2 (HttpOk (length ts) (JObj [(''transcription'', JStr sa)]))"
  have w3: "tasks w3 = ts @ TTranscribe # [TFeedback]"
    "sent w3 = sent w2 @ [feedback_req sa (facial_field fb)]" "facialResult (st w3) = fb" "thrown w3 = thrown w"
    using w2 complete_at [OF w2(1)]
    by (simp_all add: w3_def transcribe_ok_def transcribed_def requestFeedback_def js)
  define w4 where "w4 = front_step key w3 (HttpOk (length ts) (JObj [(''transcription'', JStr sb)]))"
  have w4: "tasks w4 = ts @ [TFeedback, TFeedback]"
    "sent w4 = sent w3 @ [feedback_req sb (facial_field fb)]" "facialResult (st w4) = fb" "thrown w4 = thrown w"
    using w3 complete_at [OF w3(1)]
    by (simp_all add: w4_def transcribe_ok_def transcribed_def requestFeedback_def js)
  have "w' = w4" by (simp add: w'_def w4_def w3_def w2_def w1_def)
  then show ?thesis using w4 w3 w2 w1 by simp
qed

theorem feedback_mixes_answers_witness:
  "sent (front_run ''k'' (front_run ''k'' front_init
      [SelectCv (Some ''cv.pdf''), HttpOk 0 (JObj [(''summary'', JStr ''s'')]),
       HttpOk 0 (JObj [(''questions'', JArr [JStr ''Q1'', JStr ''Q2''])]), HttpOk 0 (JObj []), AudioEnded 0,
       MediaOk 0, StopRecording, RecorderDone 0 100, NextQuestion, HttpOk 1 (JObj []), AudioEnded 1,
       MediaOk 1, StopRecording, RecorderDone 1 200])
     [HttpOk 0 (JObj [(''dominant_emotion'', JStr ''sad'')]), HttpOk 0 (JObj [(''dominant_emotion'', JStr ''happy'')]),
      HttpOk 0 (JObj [(''transcription'', JStr ''first answer'')]),
      HttpOk 0 (JObj [(''transcription'', JStr ''second answer'')])])
   = sent (front_run ''k'' front_init
      [SelectCv (Some ''cv.pdf''), HttpOk 0 (JObj [(''summary'', JStr ''s'')]),
       HttpOk 0 (JObj [(''questions'', JArr [JStr ''Q1'', JStr ''Q2''])]), HttpOk 0 (JObj []), AudioEnded 0,
       MediaOk 0, StopRecording, RecorderDone 0 100, NextQuestion, HttpOk 1 (JObj []), AudioEnded 1,
       MediaOk 1, StopRecording, RecorderDone 1 200])
     @ [transcribe_req [(0, 100)], transcribe_req [(1, 200)],
        feedback_req ''first answer'' (facial_field (JObj [(''dominant_emotion'', JStr ''happy'')])),
        feedback_req ''second answer'' (facial_field (JObj [(''dominant_emotion'', JStr ''happy'')]))]"
proof -
  let ?w = "front_run ''k'' front_init
      [SelectCv (Some ''cv.pdf''), HttpOk 0 (JObj [(''summary'', JStr ''s'')]),
       HttpOk 0 (JObj [(''questions'', JArr [JStr ''Q1'', JStr ''Q2''])]), HttpOk 0 (JObj []), AudioEnded 0,
       MediaOk 0, StopRecording, RecorderDone 0 100, NextQuestion, HttpOk 1 (JObj []), AudioEnded 1,
       MediaOk 1, StopRecording, RecorderDone 1 200]"
  have t: "tasks ?w = TAnalyze [(0, 100)] # TAnalyze [(1, 200)] # []" by code_simp
  show ?thesis
    using feedback_mixes_answers [where key = "''k''" and fa = "JObj [(''dominant_emotion'', JStr ''sad'')]"
        and fb = "JObj [(''dominant_emotion'', JStr ''happy'')]" and sa = "''first answer''"
        and sb = "''second answer''", OF t]
    by simp
qed

end

