(* ===== verification/Quiescence.thy ===== *)
theory Quiescence
  imports Interview
begin

text \<open>
  Termination of the callback chains of \<open>FrontComponent\<close>.  Each pending task has a
  weight, the length of the longest chain of callbacks it can still start; the
  callback of a task only registers tasks of smaller total weight.  So the
  environment alone (responses, media and audio events, recorder stops) cannot keep
  the page busy for ever, and completing the first pending task the right way, again
  and again, empties the queue (\<open>quiesce\<close>).
\<close>

section \<open>Weights\<close>

fun task_weight :: "ftask \<Rightarrow> nat" where
  "task_weight TSummarize = 5"
| "task_weight TQuestions = 4"
| "task_weight TQuestionTts = 3"
| "task_weight TQuestionAudio = 2"
| "task_weight TUserMedia = 1"
| "task_weight (TRecorderStop r) = 6"
| "task_weight (TAnalyze b) = 5"
| "task_weight TTranscribe = 4"
| "task_weight TFeedback = 3"
| "task_weight TFeedbackTts = 2"
| "task_weight TFeedbackAudio = 1"

definition tasks_weight :: "fw \<Rightarrow> nat" where
  "tasks_weight w = sum_list (map task_weight (tasks w))"

text \<open>\<open>w'\<close> has the tasks of \<open>w\<close> and new ones of total weight below \<open>n\<close>.\<close>

definition adds_below :: "nat \<Rightarrow> fw \<Rightarrow> fw \<Rightarrow> bool" where
  "adds_below n w w' \<longleftrightarrow> (\<exists>new. tasks w' = tasks w @ new \<and> sum_list (map task_weight new) < n)"

text \<open>The events the environment produces, as opposed to calls from the page.\<close>

fun env_event :: "fevent \<Rightarrow> bool" where
  "env_event (HttpOk i v) = True"
| "env_event (HttpFail i) = True"
| "env_event (MediaOk i) = True"
| "env_event (MediaDenied i) = True"
| "env_event (AudioEnded i) = True"
| "env_event (AudioBlocked i) = True"
| "env_event (RecorderDone i sz) = True"
| "env_event e = False"

text \<open>A way to complete the first pending task that registers as little as possible.\<close>

fun drain_event :: "ftask \<Rightarrow> fevent" where
  "drain_event TQuestionAudio = AudioBlocked 0"
| "drain_event TFeedbackAudio = AudioBlocked 0"
| "drain_event TUserMedia = MediaDenied 0"
| "drain_event (TRecorderStop r) = RecorderDone 0 0"
| "drain_event t = HttpFail 0"

section \<open>Every callback registers less than it weighs\<close>

lemma adds_below_mono: "adds_below m w w' \<Longrightarrow> m \<le> n \<Longrightarrow> adds_below n w w'"
  unfolding adds_below_def by fastforce

lemma adds_below_same [intro]: "tasks w' = tasks w \<Longrightarrow> 0 < n \<Longrightarrow> adds_below n w w'"
  unfolding adds_below_def by (rule exI [of _ "[]"]) simp

lemma adds_below_one [intro]:
  "tasks w' = tasks w @ [t] \<Longrightarrow> task_weight t < n \<Longrightarrow> adds_below n w w'"
  unfolding adds_below_def by (rule exI [of _ "[t]"]) simp

lemma adds_below_playCurrentQuestion: "3 < n \<Longrightarrow> adds_below n w (playCurrentQuestion w)"
  by (auto simp: playCurrentQuestion_def Let_def)

lemma adds_below_update: "adds_below n (update_st f w) w' \<Longrightarrow> adds_below n w w'"
  by (simp add: adds_below_def)

lemma adds_below_playFeedback: "2 < n \<Longrightarrow> adds_below n w (playFeedback w)"
  by (auto simp: playFeedback_def Let_def)

lemma adds_below_feedback_set: "2 < n \<Longrightarrow> adds_below n w (feedback_set t w)"
proof -
  assume n: "2 < n"
  have "adds_below n (update_st f w) (playFeedback (update_st f w))" for f
    using n by (rule adds_below_playFeedback)
  then show ?thesis using n by (auto simp: feedback_set_def Let_def adds_below_def)
qed

lemma adds_below_settle:
  "0 < n \<Longrightarrow> (\<And>w'. r = Inr w' \<Longrightarrow> adds_below n w w') \<Longrightarrow> adds_below n w (settle w r)"
  by (cases r) auto

lemma adds_below_feedback_ok: "adds_below 3 w (settle w (feedback_ok v w))"
  by (rule adds_below_settle)
     (auto simp: feedback_ok_def feedback_fallback_def adds_below_feedback_set Let_def split: if_splits sum.splits)

lemma adds_below_fallback: "adds_below 3 w (settle w (feedback_fallback w))"
  by (rule adds_below_settle) (auto simp: feedback_fallback_def adds_below_feedback_set split: sum.splits)

lemma adds_below_on_ok: "adds_below (task_weight t) w (on_ok key t v w)"
proof (cases t)
  case TQuestions
  then show ?thesis
    by (auto intro!: adds_below_settle adds_below_update [OF adds_below_playCurrentQuestion]
          simp: questions_ok_def Let_def split: sum.splits)
next
  case TTranscribe
  then show ?thesis
    by (auto intro!: adds_below_settle simp: transcribe_ok_def transcribed_def requestFeedback_def Let_def
          split: sum.splits)
next
  case TFeedback
  then show ?thesis using adds_below_feedback_ok by simp
qed (auto intro!: adds_below_settle simp: summarize_ok_def analyze_done_def Let_def split: sum.splits)

lemma adds_below_on_fail: "adds_below (task_weight t) w (on_fail t w)"
  by (cases t) (auto simp: summarize_err_def questions_err_def startRecording_def analyze_done_def
      transcribed_def requestFeedback_def adds_below_fallback Let_def)

lemma adds_below_audio_ended: "adds_below (task_weight t) w (audio_ended t w)"
  by (cases t) (auto simp: startRecording_def)

lemma adds_below_stop_task: "adds_below (task_weight t) w (stop_task sz t w)"
  by (cases t) (auto simp: recorder_stopped_def Let_def)

section \<open>Steps of the environment\<close>

lemma task_weight_pos: "0 < task_weight t"
  by (cases t) simp_all

lemma take_task_weight:
  assumes "take_task i w = Some (t, w')"
  shows "tasks_weight w = task_weight t + tasks_weight w'"
proof -
  from assms have i: "i < length (tasks w)" and t: "t = tasks w ! i"
    and w': "tasks w' = take i (tasks w) @ drop (Suc i) (tasks w)"
    by (auto simp: take_task_Some)
  have "tasks w = take i (tasks w) @ t # drop (Suc i) (tasks w)"
    using i t by (simp add: id_take_nth_drop)
  then have "tasks_weight w = sum_list (map task_weight (take i (tasks w) @ t # drop (Suc i) (tasks w)))"
    by (simp add: tasks_weight_def)
  then show ?thesis using w' by (simp add: tasks_weight_def)
qed

lemma complete_weight_less:
  assumes "take_task i w = Some (t, w')" and "ok t" and "adds_below (task_weight t) w' (f t w')"
  shows "tasks_weight (complete i ok f w) < tasks_weight w"
proof -
  obtain new where "tasks (f t w') = tasks w' @ new" "sum_list (map task_weight new) < task_weight t"
    using assms(3) by (auto simp: adds_below_def)
  then have "tasks_weight (f t w') < tasks_weight w' + task_weight t"
    by (simp add: tasks_weight_def)
  then show ?thesis using assms(1,2) take_task_weight [OF assms(1)] by (simp add: complete_def)
qed

lemma complete_weight:
  assumes "\<And>t w'. ok t \<Longrightarrow> adds_below (task_weight t) w' (f t w')"
  shows "complete i ok f w = w \<or> tasks_weight (complete i ok f w) < tasks_weight w"
proof (cases "take_task i w")
  case (Some tw)
  then obtain t w' where tk: "take_task i w = Some (t, w')" by (cases tw) auto
  show ?thesis
  proof (cases "ok t")
    case True
    then show ?thesis using complete_weight_less [where ok = ok and f = f, OF tk True assms [of t w', OF True]] by simp
  qed (simp add: complete_def tk)
qed (simp add: complete_def)

lemma drain_weight:
  assumes "tasks w = t # ts"
  shows "tasks_weight (front_step key w (drain_event t)) < tasks_weight w"
proof -
  have tk: "take_task 0 w = Some (t, w\<lparr>tasks := ts\<rparr>)" using assms by (simp add: take_task_def)
  have pos: "adds_below (task_weight t) w' (throw e w')" for w' e
    using task_weight_pos by auto
  have cw: "tasks_weight (complete 0 ok f w) < tasks_weight w"
    if "ok t" "adds_below (task_weight t) (w\<lparr>tasks := ts\<rparr>) (f t (w\<lparr>tasks := ts\<rparr>))" for ok f
    using complete_weight_less [where ok = ok and f = f, OF tk that] .
  show ?thesis
    by (cases t) (auto intro!: cw adds_below_on_fail adds_below_stop_task pos)
qed

section \<open>Quiescence\<close>

text \<open>
  The environment's way to bring the page to rest: complete the first pending task
  with \<open>drain_event\<close> until none is left.
\<close>

function quiesce :: "string \<Rightarrow> fw \<Rightarrow> fevent list" where
  "quiesce key w =
     (case tasks w of
        [] \<Rightarrow> []
      | t # ts \<Rightarrow> drain_event t # quiesce key (front_step key w (drain_event t)))"
  by pat_completeness auto
termination
  by (relation "measure (\<lambda>(key, w). tasks_weight w)") (auto intro: drain_weight)

section \<open>Properties\<close>

text \<open>
  Claim C23.  Every event of the environment either changes nothing or strictly
  lowers the weight of the pending tasks: no callback chain of the component
  re-arms itself, so without calls from the page the component comes to rest.
\<close>

theorem env_step_decreases:
  "env_event e \<Longrightarrow> front_step key w e = w \<or> tasks_weight (front_step key w e) < tasks_weight w"
proof (cases e)
  case (MediaOk i)
  have "adds_below (task_weight t) w' (media_granted w')" for t w'
    using task_weight_pos by (auto simp: media_granted_def Let_def)
  then show ?thesis using MediaOk by (simp add: complete_weight)
next
  case (MediaDenied i)
  have "adds_below (task_weight t) w' (throw NotAllowedError w')" for t w'
    using task_weight_pos by auto
  then show ?thesis using MediaDenied by (simp add: complete_weight)
next
  case (AudioBlocked i)
  have "adds_below (task_weight t) w' (throw NotAllowedError w')" for t w'
    using task_weight_pos by auto
  then show ?thesis using AudioBlocked by (simp add: complete_weight)
qed (simp_all add: complete_weight adds_below_on_ok adds_below_on_fail adds_below_audio_ended
      adds_below_stop_task)

theorem env_step_decreases_witness:
  "tasks_weight (front_step ''k'' (front_run ''k'' front_init [StartRecording, MediaOk 0, StopRecording])
      (RecorderDone 0 10)) < tasks_weight (front_run ''k'' front_init [StartRecording, MediaOk 0, StopRecording])"
proof -
  let ?w = "front_run ''k'' front_init [StartRecording, MediaOk 0, StopRecording]"
  have "front_step ''k'' ?w (RecorderDone 0 10) \<noteq> ?w" by code_simp
  then show ?thesis using env_step_decreases [of "RecorderDone 0 10" "''k''" ?w] by simp
qed

text \<open>
  Claim C24.  From every state, completing the first pending task again and again
  (with a failure, a denial, a blocked audio element or an empty recording) empties
  the queue, after at most as many events as the tasks weigh (six per pending
  recording stop).
\<close>

theorem quiesce_drains:
  "tasks (front_run key w (quiesce key w)) = [] \<and> length (quiesce key w) \<le> tasks_weight w"
proof (induction key w rule: quiesce.induct)
  case (1 key w)
  show ?case
  proof (cases "tasks w")
    case Nil
    then show ?thesis by simp
  next
    case (Cons t ts)
    have "tasks_weight (front_step key w (drain_event t)) < tasks_weight w" by (rule drain_weight [OF Cons])
    then show ?thesis using "1" [OF Cons] Cons by simp
  qed
qed

end

