(* ===== verification/Quiz.thy ===== *)
theory Quiz
  imports Runtime
begin

text \<open>
  \<open>QuizComponent\<close> (src/frontend/cv-quiz-frontend/src/app/quiz/quiz.component.ts) and
  the services it and the rest of the application call: \<open>QuizService\<close>
  (quiz.service.ts) and \<open>AiService\<close> (ai.service.ts) as request builders.  The
  component's fields form the record \<open>quiz\<close>; its pending subscriptions are tasks of
  type \<open>qtask\<close>, run by \<open>quiz_step\<close> in the runtime of theory \<open>Runtime\<close>.
  The template is not in the sources: its \<open>[(ngModel)]=\"userAnswers[q.id]\"\<close>
  binding is the environment event \<open>QAnswer\<close>, an assignment to a property of
  \<open>userAnswers\<close>.
\<close>

section \<open>Services\<close>

definition quiz_base :: string where
  "quiz_base = ''http://localhost:5000''"

definition generateQuizFromFile :: "string \<Rightarrow> request" where
  "generateQuizFromFile name =
     \<lparr>req_url = quiz_base @ ''/generate-quiz'', req_body = Form [(''file'', FFile (FileBlob name) name)],
      req_resp = AsJson\<rparr>"

definition generateQuizFromText :: "string \<Rightarrow> request" where
  "generateQuizFromText text =
     \<lparr>req_url = quiz_base @ ''/generate-quiz'', req_body = Form [(''text'', FText text)], req_resp = AsJson\<rparr>"

definition submitQuiz :: "jsval \<Rightarrow> jsval list \<Rightarrow> request" where
  "submitQuiz quizId answers =
     \<lparr>req_url = quiz_base @ ''/submit-quiz'',
      req_body = JsonBody (JObj [(''quiz_id'', quizId), (''answers'', JArr answers)]), req_resp = AsJson\<rparr>"

definition getNextQuestion :: "jsval \<Rightarrow> request" where
  "getNextQuestion state =
     \<lparr>req_url = quiz_base @ ''/next_question'', req_body = JsonBody state, req_resp = AsJson\<rparr>"

definition submitAnswer :: "string \<Rightarrow> jsval \<Rightarrow> request" where
  "submitAnswer answer context =
     \<lparr>req_url = quiz_base @ ''/submit_answer'',
      req_body = JsonBody (JObj [(''answer'', JStr answer), (''context'', context)]), req_resp = AsJson\<rparr>"

section \<open>State\<close>

text \<open>
  The fields are declared with TypeScript types, but the callbacks store whatever the
  server sent, so they are JavaScript values.  \<open>j\<close> is declared and never used.
\<close>

record quiz =
  selectedFile :: "string option"
  quizId :: jsval
  questions :: jsval
  userAnswers :: jsval
  result :: jsval
  loading :: bool
  error :: jsval
  j :: jsval

datatype qtask =
    QGenFile      \<comment> \<open>the subscription of \<open>uploadAndGenerate\<close>\<close>
  | QGenText      \<comment> \<open>the subscription of \<open>generateFromText\<close>\<close>
  | QSubmitted    \<comment> \<open>the subscription of \<open>submit\<close>\<close>

type_synonym qw = "(quiz, qtask) runtime"

definition quiz_init :: qw where
  "quiz_init = rt_init
     \<lparr>selectedFile = None, quizId = JNull, questions = JArr [], userAnswers = JObj [], result = JNull,
      loading = False, error = JNull, j = JUndefined\<rparr>"

section \<open>Methods and callbacks\<close>

definition onFileSelected :: "string option \<Rightarrow> qw \<Rightarrow> qw" where
  "onFileSelected f w = (case f of None \<Rightarrow> w | Some name \<Rightarrow> update_st (\<lambda>s. s\<lparr>selectedFile := Some name\<rparr>) w)"

definition uploadAndGenerate :: "qw \<Rightarrow> qw" where
  "uploadAndGenerate w =
     (case selectedFile (st w) of
        None \<Rightarrow> update_st (\<lambda>s. s\<lparr>error := JStr ''Select a file first''\<rparr>) w
      | Some name \<Rightarrow> post (generateQuizFromFile name) QGenFile (update_st (\<lambda>s. s\<lparr>loading := True\<rparr>) w))"

definition generateFromText :: "string \<Rightarrow> qw \<Rightarrow> qw" where
  "generateFromText text w = post (generateQuizFromText text) QGenText (update_st (\<lambda>s. s\<lparr>loading := True\<rparr>) w)"

text \<open>The \<open>next\<close> callback shared by both generation requests.\<close>

definition quiz_generated :: "jsval \<Rightarrow> qw \<Rightarrow> js_error + qw" where
  "quiz_generated res w =
     (case js_get res ''quiz_id'' of
        Inl e \<Rightarrow> Inl e
      | Inr qid \<Rightarrow> Inr (update_st (\<lambda>s. s\<lparr>quizId := qid, questions := js_prop res ''questions'',
                      userAnswers := JObj [], result := JNull, loading := False\<rparr>) w))"

text \<open>
  \<open>'Erreur lors de la g\<acute>en\<acute>eration'\<close>: the accented letter is the code unit 0xE9.
\<close>

definition generation_error_msg :: string where
  "generation_error_msg = ''Erreur lors de la g'' @ [CHR 0xE9] @ ''n'' @ [CHR 0xE9] @ ''ration''"

text \<open>
  The \<open>error\<close> callback of \<open>uploadAndGenerate\<close>, given the body \<open>err.error\<close> of the
  \<open>HttpErrorResponse\<close>: \<open>err?.error?.error || 'Erreur ...'\<close>.
\<close>

definition upload_failed :: "jsval \<Rightarrow> qw \<Rightarrow> qw" where
  "upload_failed body w =
     (let msg = (if body = JNull \<or> body = JUndefined then JUndefined else js_prop body ''error'')
      in update_st (\<lambda>s. s\<lparr>error := js_or msg (JStr generation_error_msg), loading := False\<rparr>) w)"

definition text_failed :: "qw \<Rightarrow> qw" where
  "text_failed w = update_st (\<lambda>s. s\<lparr>error := JStr ''Erreur'', loading := False\<rparr>) w"

text \<open>\<open>{ id: q.id, answer: this.userAnswers[q.id] ?? "" }\<close>\<close>

definition answer_entry :: "jsval \<Rightarrow> jsval \<Rightarrow> js_error + jsval" where
  "answer_entry ua q =
     (case js_get q ''id'' of
        Inl e \<Rightarrow> Inl e
      | Inr qid \<Rightarrow>
          let a = js_prop ua (js_to_string qid)
          in Inr (JObj [(''id'', qid), (''answer'', if a = JNull \<or> a = JUndefined then JStr [] else a)]))"

text \<open>\<open>Array.prototype.map\<close>: left to right, the first exception escapes.\<close>

fun answers_of :: "jsval \<Rightarrow> jsval list \<Rightarrow> js_error + jsval list" where
  "answers_of ua [] = Inr []"
| "answers_of ua (q # qs) =
     (case answer_entry ua q of
        Inl e \<Rightarrow> Inl e
      | Inr a \<Rightarrow> (case answers_of ua qs of Inl e \<Rightarrow> Inl e | Inr as \<Rightarrow> Inr (a # as)))"

text \<open>
  \<open>submit\<close>: nothing without a truthy \<open>quizId\<close>; \<open>this.questions.map\<close> throws a
  \<open>TypeError\<close> unless \<open>questions\<close> is an array.
\<close>

definition submit :: "qw \<Rightarrow> js_error + qw" where
  "submit w =
     (let s = st w
      in if \<not> truthy (quizId s) then Inr w
         else case questions s of
                JArr qs \<Rightarrow> (case answers_of (userAnswers s) qs of
                              Inl e \<Rightarrow> Inl e
                            | Inr as \<Rightarrow> Inr (post (submitQuiz (quizId s) as) QSubmitted w))
              | _ \<Rightarrow> Inl TypeError)"

definition submit_ok :: "jsval \<Rightarrow> qw \<Rightarrow> qw" where
  "submit_ok res w = update_st (\<lambda>s. s\<lparr>result := res\<rparr>) w"

definition submit_failed :: "qw \<Rightarrow> qw" where
  "submit_failed w = update_st (\<lambda>s. s\<lparr>error := JStr ''Erreur lors de la soumission''\<rparr>) w"

section \<open>Events\<close>

text \<open>
  \<open>o[k] = v\<close> on an object: an existing property keeps its place, a new one is
  appended.  \<open>userAnswers\<close> is always an object (lemma \<open>quiz_reach_wf\<close>); on
  other values the assignment is not modelled and leaves them unchanged.
\<close>

fun js_set :: "jsval \<Rightarrow> string \<Rightarrow> jsval \<Rightarrow> jsval" where
  "js_set (JObj kvs) k v =
     JObj (if map_of kvs k = None then kvs @ [(k, v)]
           else map (\<lambda>(k', v'). if k' = k then (k', v) else (k', v')) kvs)"
| "js_set x k v = x"

text \<open>
  What can happen next: the user calls a method from the page or edits the answer
  of the question with key \<open>k\<close> (\<open>QAnswer\<close>), or pending task \<open>i\<close> completes with a
  response or with an error whose body is given.
\<close>

datatype qevent =
    QSelectFile "string option" | QUpload | QFromText string | QSubmit
  | QAnswer string jsval
  | QOk nat jsval | QFail nat jsval

fun quiz_on_ok :: "qtask \<Rightarrow> jsval \<Rightarrow> qw \<Rightarrow> qw" where
  "quiz_on_ok QGenFile v w = settle w (quiz_generated v w)"
| "quiz_on_ok QGenText v w = settle w (quiz_generated v w)"
| "quiz_on_ok QSubmitted v w = submit_ok v w"

fun quiz_on_fail :: "qtask \<Rightarrow> jsval \<Rightarrow> qw \<Rightarrow> qw" where
  "quiz_on_fail QGenFile body w = upload_failed body w"
| "quiz_on_fail QGenText body w = text_failed w"
| "quiz_on_fail QSubmitted body w = submit_failed w"

fun quiz_step :: "qw \<Rightarrow> qevent \<Rightarrow> qw" where
  "quiz_step w (QSelectFile f) = onFileSelected f w"
| "quiz_step w QUpload = uploadAndGenerate w"
| "quiz_step w (QFromText t) = generateFromText t w"
| "quiz_step w QSubmit = settle w (submit w)"
| "quiz_step w (QAnswer k v) = update_st (\<lambda>s. s\<lparr>userAnswers := js_set (userAnswers s) k v\<rparr>) w"
| "quiz_step w (QOk i v) = complete i (\<lambda>t. True) (\<lambda>t. quiz_on_ok t v) w"
| "quiz_step w (QFail i b) = complete i (\<lambda>t. True) (\<lambda>t. quiz_on_fail t b) w"

fun quiz_run :: "qw \<Rightarrow> qevent list \<Rightarrow> qw" where
  "quiz_run w [] = w"
| "quiz_run w (e # es) = quiz_run (quiz_step w e) es"

inductive quiz_reach :: "qw \<Rightarrow> bool" where
  init: "quiz_reach quiz_init"
| step: "quiz_reach w \<Longrightarrow> quiz_reach (quiz_step w e)"

text \<open>\<open>userAnswers\<close> is an object whose keys are distinct.\<close>

definition quiz_wf :: "qw \<Rightarrow> bool" where
  "quiz_wf w \<longleftrightarrow> (case userAnswers (st w) of JObj kvs \<Rightarrow> distinct (map fst kvs) | _ \<Rightarrow> False)"

section \<open>The answer sheet\<close>

text \<open>
  Abstractly, \<open>userAnswers\<close> is a finite map from question keys to answers: the
  property read \<open>userAnswers[k]\<close> is its lookup, the assignment of the template is
  its update, and a generated quiz starts from the empty map.
\<close>

definition answers_map :: "jsval \<Rightarrow> string \<rightharpoonup> jsval" where
  "answers_map ua = (case ua of JObj kvs \<Rightarrow> map_of kvs | _ \<Rightarrow> Map.empty)"

text \<open>The specification of the answer sheet after one event.\<close>

definition answers_spec :: "qw \<Rightarrow> qevent \<Rightarrow> string \<rightharpoonup> jsval" where
  "answers_spec w e =
     (let m = answers_map (userAnswers (st w))
      in case e of
           QAnswer k v \<Rightarrow> m(k \<mapsto> v)
         | QOk i v \<Rightarrow>
             if i < length (tasks w) \<and> tasks w ! i \<noteq> QSubmitted \<and> v \<noteq> JNull \<and> v \<noteq> JUndefined
             then Map.empty else m
         | _ \<Rightarrow> m)"

text \<open>The entry \<open>submit\<close> builds for a question that is not null or undefined.\<close>

definition entry_of :: "jsval \<Rightarrow> jsval \<Rightarrow> jsval" where
  "entry_of ua q =
     (let a = js_prop ua (js_to_string (js_prop q ''id''))
      in JObj [(''id'', js_prop q ''id''), (''answer'', if a = JNull \<or> a = JUndefined then JStr [] else a)])"

section \<open>Lemmas\<close>

lemma quiz_reach_run: "quiz_reach w \<Longrightarrow> quiz_reach (quiz_run w es)"
  by (induction es arbitrary: w) (auto intro: quiz_reach.step)

lemma quiz_reach_run_init: "quiz_reach (quiz_run quiz_init es)"
  by (rule quiz_reach_run [OF quiz_reach.init])

lemma js_set_distinct:
  "distinct (map fst kvs) \<Longrightarrow> js_set (JObj kvs) k v = JObj kvs' \<Longrightarrow> distinct (map fst kvs')"
proof (cases "map_of kvs k")
  case None
  assume "distinct (map fst kvs)" "js_set (JObj kvs) k v = JObj kvs'"
  then show ?thesis using None by (auto simp: map_of_eq_None_iff)
next
  case (Some a)
  assume d: "distinct (map fst kvs)" and s: "js_set (JObj kvs) k v = JObj kvs'"
  have kvs': "kvs' = map (\<lambda>(k', v'). if k' = k then (k', v) else (k', v')) kvs"
    using Some s by simp
  have eq: "map fst (map (\<lambda>(k', v'). if k' = k then (k', v) else (k', v')) kvs) = map fst kvs"
    by (induction kvs) auto
  show ?thesis unfolding kvs' eq by (rule d)
qed

lemma quiz_wf_take: "quiz_wf w \<Longrightarrow> take_task i w = Some (t, w') \<Longrightarrow> quiz_wf w'"
  by (auto simp: take_task_Some quiz_wf_def)

lemma quiz_wf_update:
  "quiz_wf w \<Longrightarrow> userAnswers (f (st w)) = userAnswers (st w) \<or> userAnswers (f (st w)) = JObj [] \<Longrightarrow>
   quiz_wf (update_st f w)"
  by (auto simp: quiz_wf_def)

lemma quiz_wf_step: "quiz_wf w \<Longrightarrow> quiz_wf (quiz_step w e)"
proof (cases e)
  case (QAnswer k v)
  assume wf: "quiz_wf w"
  then obtain kvs where ua: "userAnswers (st w) = JObj kvs" "distinct (map fst kvs)"
    by (auto simp: quiz_wf_def split: jsval.splits)
  obtain kvs' where "js_set (JObj kvs) k v = JObj kvs'" by (cases "map_of kvs k") auto
  then show ?thesis using QAnswer ua js_set_distinct by (simp add: quiz_wf_def)
next
  case (QOk i v)
  assume wf: "quiz_wf w"
  have ok: "quiz_wf (quiz_on_ok t v w')" if "quiz_wf w'" for t w'
    using that by (cases t) (auto simp: quiz_generated_def submit_ok_def quiz_wf_def split: sum.splits)
  have "quiz_wf (complete i (\<lambda>t. True) (\<lambda>t. quiz_on_ok t v) w)"
    by (rule complete_preserves [where Q = "\<lambda>t. quiz_wf"]) (auto intro: quiz_wf_take [OF wf] ok wf)
  then show ?thesis using QOk by simp
next
  case (QFail i b)
  assume wf: "quiz_wf w"
  have fl: "quiz_wf (quiz_on_fail t b w')" if "quiz_wf w'" for t w'
    using that by (cases t) (auto simp: upload_failed_def text_failed_def submit_failed_def quiz_wf_def Let_def)
  have "quiz_wf (complete i (\<lambda>t. True) (\<lambda>t. quiz_on_fail t b) w)"
    by (rule complete_preserves [where Q = "\<lambda>t. quiz_wf"]) (auto intro: quiz_wf_take [OF wf] fl wf)
  then show ?thesis using QFail by simp
qed (auto simp: quiz_wf_def onFileSelected_def uploadAndGenerate_def generateFromText_def submit_def Let_def
       split: option.splits sum.splits jsval.splits)

lemma js_prop_JObj: "js_prop (JObj kvs) k = (case map_of kvs k of Some v \<Rightarrow> v | None \<Rightarrow> JUndefined)"
  by (simp add: js_prop_def)

lemma map_of_js_set: "js_set (JObj kvs) k v = JObj kvs' \<Longrightarrow> map_of kvs' = (map_of kvs)(k \<mapsto> v)"
proof (cases "map_of kvs k")
  case None
  assume "js_set (JObj kvs) k v = JObj kvs'"
  then show ?thesis using None by (auto simp: map_add_def fun_eq_iff split: option.split)
next
  case (Some a)
  assume s: "js_set (JObj kvs) k v = JObj kvs'"
  have "map_of (map (\<lambda>(k', v'). if k' = k then (k', v) else (k', v')) kvs) k'' =
        (if k'' = k \<and> map_of kvs k \<noteq> None then Some v else map_of kvs k'')" for k''
    by (induction kvs) auto
  then show ?thesis using Some s by (auto simp: fun_eq_iff)
qed

lemma answers_map_js_set:
  "answers_map (js_set (JObj kvs) k v) = (answers_map (JObj kvs))(k \<mapsto> v)"
proof -
  obtain kvs' where s: "js_set (JObj kvs) k v = JObj kvs'" by (cases "map_of kvs k") auto
  show ?thesis using map_of_js_set [OF s] s by (simp add: answers_map_def)
qed

lemma answers_of_ok:
  "\<forall>q\<in>set qs. q \<noteq> JNull \<and> q \<noteq> JUndefined \<Longrightarrow> answers_of ua qs = Inr (map (entry_of ua) qs)"
  by (induction qs) (simp_all add: answer_entry_def entry_of_def js_simps Let_def)

lemma answers_of_null:
  "\<exists>q\<in>set qs. q = JNull \<or> q = JUndefined \<Longrightarrow> answers_of ua qs = Inl TypeError"
proof (induction qs)
  case (Cons q qs)
  then show ?case
    by (cases "q = JNull \<or> q = JUndefined") (auto simp: answer_entry_def js_simps Let_def split: sum.split)
qed simp

lemma quiz_generated_answers:
  "userAnswers (st (settle w (quiz_generated v w))) =
     (if v = JNull \<or> v = JUndefined then userAnswers (st w) else JObj [])"
  by (auto simp: quiz_generated_def js_simps)

lemma submit_state: "st (settle w (submit w)) = st w"
  by (auto simp: submit_def Let_def split: jsval.split sum.split)

section \<open>Properties\<close>

text \<open>
  Claim C17.  In every reachable state \<open>userAnswers\<close> is an object with distinct
  keys, so the reads \<open>this.userAnswers[q.id]\<close> of \<open>submit\<close> never throw.
\<close>

theorem quiz_reach_wf: "quiz_reach w \<Longrightarrow> quiz_wf w"
proof (induction rule: quiz_reach.induct)
  case init
  show ?case by (simp add: quiz_wf_def quiz_init_def rt_init_def)
next
  case (step w e)
  show ?case by (rule quiz_wf_step [OF step.IH])
qed

theorem quiz_reach_wf_witness: "quiz_wf (quiz_run quiz_init [QAnswer ''1'' (JStr ''a''), QAnswer ''1'' (JStr ''b'')])"
  using quiz_reach_wf [OF quiz_reach_run_init] .

text \<open>
  Claim C18.  The answer sheet refines a finite map: after every event,
  \<open>userAnswers\<close> read as a map is what the specification \<open>answers_spec\<close> says:
  the template's assignment updates one key, a successful generation empties the
  map, and every other event leaves it as it was.
\<close>

theorem quiz_answers_refine:
  assumes "quiz_wf w"
  shows "answers_map (userAnswers (st (quiz_step w e))) = answers_spec w e"
proof (cases e)
  case (QAnswer k v)
  obtain kvs where "userAnswers (st w) = JObj kvs"
    using assms by (auto simp: quiz_wf_def split: jsval.splits)
  then show ?thesis using QAnswer by (simp add: answers_spec_def answers_map_js_set del: js_set.simps)
next
  case (QOk i v)
  show ?thesis
  proof (cases "i < length (tasks w)")
    case True
    then show ?thesis using QOk
      by (cases "tasks w ! i")
         (simp_all add: complete_def take_task_def answers_spec_def quiz_generated_answers submit_ok_def
            answers_map_def)
  next
    case False
    then show ?thesis using QOk by (simp add: complete_def take_task_def answers_spec_def)
  qed
next
  case (QFail i b)
  have "userAnswers (st (quiz_on_fail t b w')) = userAnswers (st w')" for t w'
    by (cases t) (simp_all add: upload_failed_def text_failed_def submit_failed_def Let_def)
  then show ?thesis using QFail
    by (simp add: complete_def take_task_def answers_spec_def split: option.split)
qed (simp_all add: answers_spec_def onFileSelected_def uploadAndGenerate_def generateFromText_def
       submit_state split: option.split)

theorem quiz_answers_refine_witness:
  "answers_map (userAnswers (st (quiz_step quiz_init (QAnswer ''7'' (JStr ''x''))))) = [''7'' \<mapsto> JStr ''x'']"
proof -
  have "quiz_wf quiz_init" by (simp add: quiz_wf_def quiz_init_def rt_init_def)
  from quiz_answers_refine [OF this, of "QAnswer ''7'' (JStr ''x'')"] show ?thesis
    by (simp add: answers_spec_def answers_map_def quiz_init_def rt_init_def)
qed

text \<open>
  Claim C19.  Round trip through the answer sheet: when the user answers the
  question at position \<open>n\<close> (the template writes \<open>userAnswers[q.id]\<close>) and then
  submits, the request to \<open>/submit-quiz\<close> carries one entry per question and the
  entry at position \<open>n\<close> holds that question's id and the answer given.
\<close>

theorem answer_submit_roundtrip:
  assumes wf: "quiz_wf w" and qid: "truthy (quizId (st w))" and qs: "questions (st w) = JArr qs"
    and nn: "\<forall>q\<in>set qs. q \<noteq> JNull \<and> q \<noteq> JUndefined" and n: "n < length qs"
    and v: "v \<noteq> JNull" "v \<noteq> JUndefined"
  defines "w1 \<equiv> quiz_step w (QAnswer (js_to_string (js_prop (qs ! n) ''id'')) v)"
  shows "\<exists>as. quiz_step w1 QSubmit = post (submitQuiz (quizId (st w)) as) QSubmitted w1 \<and>
              length as = length qs \<and> as ! n = JObj [(''id'', js_prop (qs ! n) ''id''), (''answer'', v)]"
proof -
  obtain kvs where ua: "userAnswers (st w) = JObj kvs"
    using wf by (auto simp: quiz_wf_def split: jsval.splits)
  let ?k = "js_to_string (js_prop (qs ! n) ''id'')"
  obtain kvs' where set: "js_set (JObj kvs) ?k v = JObj kvs'" by (cases "map_of kvs ?k") auto
  have ua1: "userAnswers (st w1) = JObj kvs'" using ua set by (simp add: w1_def)
  have look: "js_prop (JObj kvs') ?k = v" using map_of_js_set [OF set] by (simp add: js_prop_JObj)
  have "entry_of (JObj kvs') (qs ! n) = JObj [(''id'', js_prop (qs ! n) ''id''), (''answer'', v)]"
    using look v by (simp add: entry_of_def)
  moreover have "quiz_step w1 QSubmit = post (submitQuiz (quizId (st w)) (map (entry_of (JObj kvs')) qs)) QSubmitted w1"
    using qid qs ua1 answers_of_ok [OF nn] by (simp add: w1_def submit_def)
  ultimately show ?thesis using n by auto
qed

theorem answer_submit_roundtrip_witness:
  "\<exists>as. quiz_step (quiz_step (update_st (\<lambda>s. s\<lparr>quizId := JStr ''q1'',
       questions := JArr [JObj [(''id'', JNum 3)]]\<rparr>) quiz_init) (QAnswer ''3'' (JStr ''Paris''))) QSubmit
   = post (submitQuiz (JStr ''q1'') as) QSubmitted
       (quiz_step (update_st (\<lambda>s. s\<lparr>quizId := JStr ''q1'', questions := JArr [JObj [(''id'', JNum 3)]]\<rparr>)
          quiz_init) (QAnswer ''3'' (JStr ''Paris'')))
   \<and> as ! 0 = JObj [(''id'', JNum 3), (''answer'', JStr ''Paris'')]"
proof -
  let ?w = "update_st (\<lambda>s. s\<lparr>quizId := JStr ''q1'', questions := JArr [JObj [(''id'', JNum 3)]]\<rparr>) quiz_init"
  have wf: "quiz_wf ?w" by (simp add: quiz_wf_def quiz_init_def rt_init_def)
  have k: "js_to_string (JNum 3) = ''3''" by code_simp
  have qid: "quizId (st ?w) = JStr ''q1''" by simp
  have idv: "js_prop ([JObj [(''id'', JNum 3)]] ! 0) ''id'' = JNum 3" by code_simp
  have "\<exists>as. quiz_step (quiz_step ?w (QAnswer (js_to_string (js_prop ([JObj [(''id'', JNum 3)]] ! 0) ''id''))
            (JStr ''Paris''))) QSubmit =
          post (submitQuiz (quizId (st ?w)) as) QSubmitted
            (quiz_step ?w (QAnswer (js_to_string (js_prop ([JObj [(''id'', JNum 3)]] ! 0) ''id'')) (JStr ''Paris''))) \<and>
          length as = length [JObj [(''id'', JNum 3)]] \<and>
          as ! 0 = JObj [(''id'', js_prop ([JObj [(''id'', JNum 3)]] ! 0) ''id''), (''answer'', JStr ''Paris'')]"
    by (rule answer_submit_roundtrip [OF wf]) simp_all
  then show ?thesis unfolding qid idv k by blast
qed

text \<open>
  Claim C20.  \<open>submit\<close> with a quiz id but without an array of questions throws a
  \<open>TypeError\<close> and sends nothing.  This state is reachable: a generation response
  without a \<open>questions\<close> field stores \<open>undefined\<close>.
\<close>

theorem submit_non_array_throws:
  assumes "truthy (quizId (st w))" and "\<forall>qs. questions (st w) \<noteq> JArr qs"
  shows "quiz_step w QSubmit = throw TypeError w"
  using assms by (cases "questions (st w)") (simp_all add: submit_def)

theorem submit_non_array_throws_witness:
  "quiz_step (quiz_run quiz_init [QFromText ''my cv'', QOk 0 (JObj [(''quiz_id'', JStr ''q1'')])]) QSubmit
   = throw TypeError (quiz_run quiz_init [QFromText ''my cv'', QOk 0 (JObj [(''quiz_id'', JStr ''q1'')])])"
proof -
  let ?w = "quiz_run quiz_init [QFromText ''my cv'', QOk 0 (JObj [(''quiz_id'', JStr ''q1'')])]"
  have a: "truthy (quizId (st ?w))" by code_simp
  have "questions (st ?w) = JUndefined" by code_simp
  then have b: "\<forall>qs. questions (st ?w) \<noteq> JArr qs" by simp
  show ?thesis by (rule submit_non_array_throws [OF a b])
qed

text \<open>
  Claim C21.  A successful generation stores the new quiz, stops the spinner and
  empties the answers, but keeps the previous error message: an error shown once
  (no file selected, a failed request) stays on the page next to the new quiz.
\<close>

theorem generation_keeps_error:
  assumes "t \<noteq> QSubmitted" and "res \<noteq> JNull" and "res \<noteq> JUndefined"
  shows "error (st (quiz_on_ok t res w)) = error (st w) \<and> quizId (st (quiz_on_ok t res w)) = js_prop res ''quiz_id'' \<and>
         questions (st (quiz_on_ok t res w)) = js_prop res ''questions'' \<and>
         userAnswers (st (quiz_on_ok t res w)) = JObj [] \<and> \<not> loading (st (quiz_on_ok t res w))"
  using assms by (cases t) (simp_all add: quiz_generated_def js_simps)

theorem generation_keeps_error_witness:
  "error (st (quiz_run quiz_init [QUpload, QFromText ''my cv'',
      QOk 0 (JObj [(''quiz_id'', JStr ''q1''), (''questions'', JArr [])])])) = JStr ''Select a file first''"
proof -
  let ?w = "quiz_run quiz_init [QUpload, QFromText ''my cv'']"
  let ?res = "JObj [(''quiz_id'', JStr ''q1''), (''questions'', JArr [])]"
  have t: "tasks ?w = [] @ [QGenText]" by code_simp
  have e: "error (st ?w) = JStr ''Select a file first''" by code_simp
  have "quiz_step ?w (QOk 0 ?res) = quiz_on_ok QGenText ?res (?w\<lparr>tasks := []\<rparr>)"
    using complete_last [OF t, of "\<lambda>t. True" "\<lambda>t. quiz_on_ok t ?res"] by simp
  moreover have "error (st (quiz_on_ok QGenText ?res (?w\<lparr>tasks := []\<rparr>))) = error (st (?w\<lparr>tasks := []\<rparr>))"
    using generation_keeps_error [of QGenText ?res "?w\<lparr>tasks := []\<rparr>"] by simp
  ultimately show ?thesis using e by simp
qed

text \<open>
  Claim C22.  The error callbacks: a failed upload shows the server's \<open>error\<close> field
  when it is truthy and the French default otherwise, a failed text generation shows
  \<open>'Erreur'\<close>; both stop the spinner.  A failed submission shows its message and
  leaves \<open>loading\<close> as it was.
\<close>

theorem quiz_fail_messages:
  "error (st (quiz_on_fail QGenFile body w)) =
     (if truthy (js_prop body ''error'') then js_prop body ''error'' else JStr generation_error_msg) \<and>
   \<not> loading (st (quiz_on_fail QGenFile body w)) \<and>
   error (st (quiz_on_fail QGenText body w)) = JStr ''Erreur'' \<and> \<not> loading (st (quiz_on_fail QGenText body w)) \<and>
   error (st (quiz_on_fail QSubmitted body w)) = JStr ''Erreur lors de la soumission'' \<and>
   loading (st (quiz_on_fail QSubmitted body w)) = loading (st w)"
  by (auto simp: upload_failed_def text_failed_def submit_failed_def Let_def js_or_def js_prop_def)

end

