(* ===== verification/Routing.thy ===== *)
theory Routing
  imports Prelude
begin

text \<open>
  \<open>AppRoutingModule\<close> (src/frontend/cv-quiz-frontend/src/app/app-routing.module.ts):
  the route table and the part of the Angular router's matching that it uses.  Both
  routes have no children and the default \<open>pathMatch: 'prefix'\<close>, so a route
  matches a URL exactly when its path's segments are all of the URL's segments;
  the first matching route wins, and a URL that matches none is a navigation error
  (there is no wildcard route).
\<close>

datatype page = QuizComponent | FrontComponent

definition routes :: "(string \<times> page) list" where
  "routes = [([], QuizComponent), (''front'', FrontComponent)]"

primrec split_on :: "char \<Rightarrow> string \<Rightarrow> string list" where
  "split_on c [] = [[]]"
| "split_on c (x # xs) = (let r = split_on c xs in if x = c then [] # r else (x # hd r) # tl r)"

text \<open>A route path's segments; the empty path has none.\<close>

definition path_segments :: "string \<Rightarrow> string list" where
  "path_segments p = (if p = [] then [] else split_on (CHR ''/'') p)"

definition route_of :: "string list \<Rightarrow> page option" where
  "route_of segs = map_option snd (find (\<lambda>(p, c). path_segments p = segs) routes)"

end
