(* ===== verification/Spec2Isabelle.thy ===== *)
theory Spec2Isabelle
  imports Pipeline Quiescence Quiz Routing
begin

text \<open>
  \<^bold>\<open>A verification library of the CV-quiz and interview front end\<close>
  (src/frontend/cv-quiz-frontend/src/app, Angular, TypeScript).

  \<^bold>\<open>The program.\<close>  Two pages, chosen by the router of app-routing.module.ts: the
  quiz page (\<open>QuizComponent\<close>, quiz/quiz.component.ts, with \<open>QuizService\<close> of
  quiz.service.ts) uploads a CV or a text, shows the generated quiz and submits
  the answers; the interview page (\<open>FrontComponent\<close>, front/front.component.ts)
  uploads a CV, gets interview questions, speaks each question, records the answer
  with the camera, has it analysed (facial emotion) and transcribed, asks for
  feedback and speaks it.  All work happens in callbacks of HTTP subscriptions,
  promises, audio elements and \<open>MediaRecorder\<close> events, so the components are
  event-driven state machines over their fields.

  \<^bold>\<open>Theories.\<close>
  \<^item> \<open>Prelude\<close>: JavaScript values (\<open>jsval\<close>), truthiness, \<open>||\<close>, \<open>typeof\<close>,
    \<open>trim\<close>, decimal printing and parsing of numbers, and the generic lemmas the
    components share (collection \<open>js_simps\<close>).
  \<^item> \<open>JsText\<close>: the library functions the code calls, written from their
    specification: \<open>split(/\\s+/)\<close> (\<open>split_ws\<close>, a \<open>function\<close> with a measure),
    property access and \<open>Object.keys\<close> order (\<open>js_get\<close>, \<open>js_prop\<close>, \<open>own_props\<close>),
    \<open>String()\<close>, \<open>JSON.stringify\<close> with its string escaping and a decoder.
  \<^item> \<open>Runtime\<close>: the browser as explicit state: \<open>('s, 't) runtime\<close> holds the
    component state \<open>st\<close>, the pending callbacks \<open>tasks\<close>, the requests \<open>sent\<close> and
    the exceptions \<open>thrown\<close>.  \<open>post\<close> is \<open>http.post(...).subscribe(...)\<close>,
    \<open>complete i\<close> runs pending callback \<open>i\<close>, \<open>settle\<close> reports an exception of a
    callback and keeps the state it started from (every \<open>throw\<close> of the code comes
    before the callback's first assignment).
  \<^item> \<open>Feedback\<close>: \<open>clientSideFeedbackFallback\<close> and the \<open>facial\<close> form field of
    \<open>requestFeedback\<close>.
  \<^item> \<open>Interview\<close>: \<open>FrontComponent\<close>: the fields as the record \<open>front\<close>, extended by
    the live \<open>MediaRecorder\<close>s (\<open>fworld\<close>); one definition per method and per
    callback (\<open>onCVSelected\<close>, \<open>summarize_ok\<close>, \<open>questions_ok\<close>,
    \<open>playCurrentQuestion\<close>, \<open>startRecording\<close> split at its \<open>await\<close> into
    \<open>media_granted\<close>, \<open>stopRecording\<close>, \<open>recorder_stopped\<close> for \<open>onstop\<close>,
    \<open>analyze_done\<close>, \<open>transcribe_ok\<close>, \<open>requestFeedback\<close>, \<open>feedback_ok\<close>,
    \<open>playFeedback\<close>, \<open>nextQuestion\<close>); the events (\<open>fevent\<close>), the step function
    \<open>front_step\<close>, runs \<open>front_run\<close> and the reachable states \<open>front_reach\<close>;
    \<open>front_step_preserves_tasks\<close> reduces an invariant to one obligation per handler.
  \<^item> \<open>Recorder\<close>: the recorder invariant (each live recorder has at most one pending
    stop, only \<open>this.mediaRecorder\<close> can be stopped) and the leaked-recorder defect.
  \<^item> \<open>Questions\<close>: the question list is never null (reads never throw), the
    bound on the question index, the behaviour of \<open>playCurrentQuestion\<close>,
    \<open>nextQuestion\<close> and the questions callback on arrays, the stale index after a
    failed question generation, and a string of questions read letter by letter.
  \<^item> \<open>Pipeline\<close>: the answer pipeline end to end (stop, analyse, transcribe,
    feedback, speech), null response bodies, the spinners that never stop, and the
    mixing of two answers in flight.
  \<^item> \<open>Quiescence\<close>: termination of the callback chains: a weight on pending
    tasks (\<open>task_weight\<close>, at most 6 per task, the length of the longest chain a task
    can start) that every event of the environment lowers, and \<open>quiesce\<close>, a
    \<open>function\<close> whose termination is that measure, which brings every state to an
    empty queue.
  \<^item> \<open>Quiz\<close>: \<open>QuizComponent\<close> (record \<open>quiz\<close>, \<open>quiz_step\<close>, \<open>quiz_reach\<close>),
    the request builders of \<open>QuizService\<close> and \<open>AiService\<close>, the well-formedness of
    the answer object, its refinement of a finite map (\<open>answers_spec\<close>), the
    answer/submit round trip and the error paths.
  \<^item> \<open>Routing\<close>: the route table and its matching.

  \<^bold>\<open>Choices.\<close>  JavaScript numbers are integers (\<open>int\<close>): the code only
  counts and indexes.  Array index keys are bounded by \<open>2^32 - 1\<close>, the limit
  of JavaScript array indices; the array lemmas assume lengths within it.  No loop of
  the code is unbounded (the only loops are \<open>split\<close> and \<open>map\<close> over finite lists),
  so no fuel is needed; the event loop is a step function applied to a finite list
  of events, and liveness claims are stated over the explicit events that complete
  each pending task.  The backend is the environment: each HTTP response is an
  arbitrary \<open>jsval\<close> chosen by the event.  The \<open>api_key\<close> literal of
  \<open>onCVSelected\<close> is the parameter \<open>key\<close> of the model.

  \<^bold>\<open>Not modelled.\<close>  The HTML templates are not in the sources: every public
  method is callable at any time, and the quiz template's binding of
  \<open>userAnswers[q.id]\<close> is the event \<open>QAnswer\<close>.  \<open>playFeedbackWithWebSpeech\<close> is
  modelled (theory \<open>Pipeline\<close>) but no event calls it: its only call is commented
  out.  \<open>startRecording\<close> assumes the template has the \<open>#preview\<close> video element.  \<open>AppModule\<close> only declares
  components.  The camera stream, blob URLs and the audio output are effects without
  a bearing on the component state; the router's URL parsing and component life
  cycle (a page's pending callbacks survive navigation) are not modelled.
\<close>

end
